theory Spec2Isabelle
  imports Complex_Main
begin

section \<open>NumPy arrays and the global random generator\<close>

text \<open>
  The notebook \<^verbatim>\<open>examples/user_guide/15-Large_Data.ipynb\<close> computes with NumPy arrays of
  floats. One-dimensional arrays are lists, two-dimensional arrays are lists of rows.
  The arrays of which only the shape and the provenance matter (the random walks, the
  Gaussian samples, the grids) and the matrix of \<^verbatim>\<open>random_cov\<close> are over the reals, in
  exact arithmetic. The values of \<^verbatim>\<open>time_series\<close>, whose sign matters, are IEEE
  doubles with rounding, overflow, underflow and NaN (section \<open>Doubles\<close>).

  Exceptions are values of \<open>py_error\<close>. NumPy's global generator is an explicit state of
  an arbitrary type \<open>'g\<close>. What the libraries compute by routines that are not part of the
  repository is a field of a record that every function takes as a parameter: the
  primitive draws of the generator, the matrix factor that
  \<^verbatim>\<open>multivariate_normal\<close> takes of a covariance, and the exponential of the maths
  library, which need not be correctly rounded.
\<close>

datatype py_error = ValueError | ZeroDivisionError | OverflowError

datatype fl = Fin real | PInf | NInf | NaN

record 'g numpy =
  seed_state :: "nat \<Rightarrow> 'g"
  next_gauss :: "'g \<Rightarrow> real \<times> 'g"
  next_double :: "'g \<Rightarrow> real \<times> 'g"
  mvn_factor :: "real list list \<Rightarrow> real list list"
  lib_exp :: "real \<Rightarrow> fl"

type_synonym ('a, 'g) np = "'g \<Rightarrow> py_error + ('a \<times> 'g)"

definition ret :: "'a \<Rightarrow> ('a, 'g) np" where
  "ret x = (\<lambda>g. Inr (x, g))"

definition raise :: "py_error \<Rightarrow> ('a, 'g) np" where
  "raise e = (\<lambda>g. Inl e)"

definition bind :: "('a, 'g) np \<Rightarrow> ('a \<Rightarrow> ('b, 'g) np) \<Rightarrow> ('b, 'g) np" where
  "bind m f = (\<lambda>g. case m g of Inl e \<Rightarrow> Inl e | Inr (x, g1) \<Rightarrow> f x g1)"

definition lift :: "py_error + 'a \<Rightarrow> ('a, 'g) np" where
  "lift r = (\<lambda>g. case r of Inl e \<Rightarrow> Inl e | Inr x \<Rightarrow> Inr (x, g))"

fun draw_n :: "('g \<Rightarrow> real \<times> 'g) \<Rightarrow> nat \<Rightarrow> 'g \<Rightarrow> real list \<times> 'g" where
  "draw_n d 0 g = ([], g)"
| "draw_n d (Suc k) g =
     (case d g of (x, g1) \<Rightarrow> (case draw_n d k g1 of (xs, g2) \<Rightarrow> (x # xs, g2)))"

text \<open>\<^verbatim>\<open>np.random.seed(k)\<close>: the new state is a function of the seed alone.\<close>

definition np_random_seed :: "'g numpy \<Rightarrow> nat \<Rightarrow> (unit, 'g) np" where
  "np_random_seed R k = (\<lambda>g. Inr ((), seed_state R k))"

text \<open>\<^verbatim>\<open>np.random.normal(loc, scale, size=n)\<close>: a negative size raises.\<close>

definition np_random_normal :: "'g numpy \<Rightarrow> real \<Rightarrow> real \<Rightarrow> int \<Rightarrow> (real list, 'g) np" where
  "np_random_normal R loc scale n =
     (\<lambda>g. if n < 0 then Inl ValueError
          else (case draw_n (next_gauss R) (nat n) g of
                  (zs, g1) \<Rightarrow> Inr (map (\<lambda>z. loc + scale * z) zs, g1)))"

definition np_random_standard_normal :: "'g numpy \<Rightarrow> int \<Rightarrow> (real list, 'g) np" where
  "np_random_standard_normal R n =
     (\<lambda>g. if n < 0 then Inl ValueError
          else (case draw_n (next_gauss R) (nat n) g of (zs, g1) \<Rightarrow> Inr (zs, g1)))"

text \<open>\<^verbatim>\<open>np.random.randn(r, c)\<close> with literal shape: \<open>r * c\<close> draws, row by row.\<close>

fun rows_of :: "nat \<Rightarrow> 'a list \<Rightarrow> 'a list list" where
  "rows_of c [] = []"
| "rows_of c (x # xs) =
     (if c = 0 then [] else take c (x # xs) # rows_of c (drop c (x # xs)))"

definition np_random_randn2 :: "'g numpy \<Rightarrow> nat \<Rightarrow> nat \<Rightarrow> (real list list, 'g) np" where
  "np_random_randn2 R r c =
     (\<lambda>g. case draw_n (next_gauss R) (r * c) g of (zs, g1) \<Rightarrow> Inr (rows_of c zs, g1))"

definition np_random_randn1 :: "'g numpy \<Rightarrow> nat \<Rightarrow> (real list, 'g) np" where
  "np_random_randn1 R k = (\<lambda>g. case draw_n (next_gauss R) k g of (zs, g1) \<Rightarrow> Inr (zs, g1))"

definition np_random_rand :: "'g numpy \<Rightarrow> (real, 'g) np" where
  "np_random_rand R = (\<lambda>g. case next_double R g of (u, g1) \<Rightarrow> Inr (u, g1))"

subsection \<open>Array operations\<close>

definition np_ones :: "int \<Rightarrow> py_error + real list" where
  "np_ones f = (if f < 0 then Inl ValueError else Inr (replicate (nat f) 1))"

text \<open>\<^verbatim>\<open>np.convolve(a, v)\<close>, mode \<^verbatim>\<open>'full'\<close>: entry \<open>k\<close> is the sum of \<open>a[m] * v[k - m]\<close>.\<close>

definition convolve_full :: "real list \<Rightarrow> real list \<Rightarrow> real list" where
  "convolve_full a v =
     map (\<lambda>k. sum_list (map (\<lambda>m. if m \<le> k \<and> k - m < length v then a ! m * v ! (k - m) else 0)
                               [0..<length a]))
         [0..<length a + length v - 1]"

definition np_convolve :: "real list \<Rightarrow> real list \<Rightarrow> py_error + real list" where
  "np_convolve a v =
     (if a = [] then Inl ValueError
      else if v = [] then Inl ValueError
      else Inr (convolve_full a v))"

fun cumsum_from :: "real \<Rightarrow> real list \<Rightarrow> real list" where
  "cumsum_from acc [] = []"
| "cumsum_from acc (x # xs) = (acc + x) # cumsum_from (acc + x) xs"

definition cumsum :: "real list \<Rightarrow> real list" where
  "cumsum xs = cumsum_from 0 xs"

text \<open>\<^verbatim>\<open>range(k)\<close> as an array of floats; a negative \<open>k\<close> gives the empty range.\<close>

definition py_range :: "int \<Rightarrow> real list" where
  "py_range k = map real [0..<nat k]"

text \<open>In-place \<^verbatim>\<open>xs += ys\<close>: \<open>ys\<close> must have the shape of \<open>xs\<close> or broadcast to it.\<close>

definition np_iadd :: "real list \<Rightarrow> real list \<Rightarrow> py_error + real list" where
  "np_iadd xs ys =
     (if length ys = length xs then Inr (map2 (+) xs ys)
      else if length ys = 1 then Inr (map (\<lambda>x. x + hd ys) xs)
      else Inl ValueError)"

definition np_column_stack2 :: "real list \<Rightarrow> real list \<Rightarrow> py_error + real list list" where
  "np_column_stack2 xs ys =
     (if length xs = length ys then Inr (map2 (\<lambda>x y. [x, y]) xs ys) else Inl ValueError)"

definition transpose_m :: "real list list \<Rightarrow> real list list" where
  "transpose_m A = (case A of [] \<Rightarrow> [] | r # _ \<Rightarrow> map (\<lambda>j. map (\<lambda>row. row ! j) A) [0..<length r])"

definition inner :: "real list \<Rightarrow> real list \<Rightarrow> real" where
  "inner u v = sum_list (map2 (*) u v)"

text \<open>\<^verbatim>\<open>np.dot(A, B)\<close> for two-dimensional arrays.\<close>

definition np_dot :: "real list list \<Rightarrow> real list list \<Rightarrow> real list list" where
  "np_dot A B = map (\<lambda>row. map (\<lambda>col. inner row col) (transpose_m B)) A"

text \<open>\<^verbatim>\<open>np.linspace(start, stop, num)\<close>, following NumPy's own case split.\<close>

definition np_linspace :: "real \<Rightarrow> real \<Rightarrow> int \<Rightarrow> py_error + real list" where
  "np_linspace start stop num =
     (if num < 0 then Inl ValueError
      else let dv = num - 1;
               delta = stop - start;
               y = py_range num;
               y1 = (if dv > 0
                     then (let step = delta / real_of_int dv
                           in if step = 0 then map (\<lambda>v. v / real_of_int dv * delta) y
                              else map (\<lambda>v. v * step) y)
                     else map (\<lambda>v. v * delta) y);
               y2 = map (\<lambda>v. v + start) y1
           in Inr (if num > 1 then y2[nat num - 1 := stop] else y2))"

subsection \<open>Doubles\<close>

text \<open>
  A double is a finite real, an infinity or NaN (\<open>fl\<close>); the sign of zero is not kept.
  \<open>binary64\<close> rounds an exact result to the nearest double, ties to even: the spacing
  of the doubles around \<open>v\<close> is \<open>2\<close> to the power \<open>e - 52\<close>, where \<open>e\<close> is the binary
  exponent of \<open>v\<close> and at least \<open>-1022\<close> (below that the doubles are subnormal, and a
  result of less than half the smallest of them rounds to zero); a rounded result beyond
  the largest double overflows to an infinity.
\<close>

definition float_max :: real where
  "float_max = (2 ^ 53 - 1) * 2 ^ 971"

definition round_half_even :: "real \<Rightarrow> int" where
  "round_half_even q =
     (let f = \<lfloor>q\<rfloor>; d = q - real_of_int f
      in if d < 1 / 2 then f else if 1 / 2 < d then f + 1 else if even f then f else f + 1)"

definition binary64 :: "real \<Rightarrow> fl" where
  "binary64 v =
     (if v = 0 then Fin 0
      else let e = max \<lfloor>log 2 \<bar>v\<bar>\<rfloor> (- 1022);
               u = 2 powr (real_of_int e - 52);
               w = real_of_int (round_half_even (v / u)) * u
           in if float_max < \<bar>w\<bar> then (if 0 < v then PInf else NInf) else Fin w)"

text \<open>
  The arithmetic of doubles: an operation on finite doubles rounds the exact result; NaN
  propagates; the infinities follow the sign rules, and \<open>inf - inf\<close>, \<open>0 * inf\<close>,
  \<open>0 / 0\<close> and \<open>inf / inf\<close> are NaN.
\<close>

fun fl_sgn :: "fl \<Rightarrow> real" where
  "fl_sgn (Fin v) = sgn v"
| "fl_sgn PInf = 1"
| "fl_sgn NInf = - 1"
| "fl_sgn NaN = 0"

fun fl_neg :: "fl \<Rightarrow> fl" where
  "fl_neg (Fin v) = Fin (- v)"
| "fl_neg PInf = NInf"
| "fl_neg NInf = PInf"
| "fl_neg NaN = NaN"

fun fl_add :: "fl \<Rightarrow> fl \<Rightarrow> fl" where
  "fl_add NaN _ = NaN"
| "fl_add _ NaN = NaN"
| "fl_add (Fin a) (Fin b) = binary64 (a + b)"
| "fl_add PInf NInf = NaN"
| "fl_add NInf PInf = NaN"
| "fl_add PInf _ = PInf"
| "fl_add _ PInf = PInf"
| "fl_add NInf _ = NInf"
| "fl_add _ NInf = NInf"

fun fl_mul :: "fl \<Rightarrow> fl \<Rightarrow> fl" where
  "fl_mul NaN _ = NaN"
| "fl_mul _ NaN = NaN"
| "fl_mul (Fin a) (Fin b) = binary64 (a * b)"
| "fl_mul a b =
     (if fl_sgn a * fl_sgn b = 0 then NaN else if 0 < fl_sgn a * fl_sgn b then PInf else NInf)"

fun fl_div :: "fl \<Rightarrow> fl \<Rightarrow> fl" where
  "fl_div NaN _ = NaN"
| "fl_div _ NaN = NaN"
| "fl_div (Fin a) (Fin b) =
     (if b = 0 then (if a = 0 then NaN else if 0 < a then PInf else NInf)
      else binary64 (a / b))"
| "fl_div (Fin a) _ = Fin 0"
| "fl_div a (Fin b) = (if 0 \<le> b then a else fl_neg a)"
| "fl_div _ _ = NaN"

text \<open>\<^verbatim>\<open>np.sqrt\<close>: correctly rounded; NaN for a negative argument.\<close>

fun fl_sqrt :: "fl \<Rightarrow> fl" where
  "fl_sqrt (Fin v) = (if v < 0 then NaN else binary64 (sqrt v))"
| "fl_sqrt PInf = PInf"
| "fl_sqrt NInf = NaN"
| "fl_sqrt NaN = NaN"

text \<open>\<^verbatim>\<open>np.exp\<close>: the library routine on a finite argument.\<close>

fun fl_exp :: "'g numpy \<Rightarrow> fl \<Rightarrow> fl" where
  "fl_exp R (Fin v) = lib_exp R v"
| "fl_exp R PInf = PInf"
| "fl_exp R NInf = Fin 0"
| "fl_exp R NaN = NaN"




text \<open>\<^verbatim>\<open>np.cumsum\<close> on doubles.\<close>

fun fl_cumsum_from :: "fl \<Rightarrow> fl list \<Rightarrow> fl list" where
  "fl_cumsum_from acc [] = []"
| "fl_cumsum_from acc (v # vs) = fl_add acc v # fl_cumsum_from (fl_add acc v) vs"

definition fl_cumsum :: "fl list \<Rightarrow> fl list" where
  "fl_cumsum vs = fl_cumsum_from (Fin 0) vs"

text \<open>\<^verbatim>\<open>np.linspace(start, stop, num)\<close> on doubles, with the same case split.\<close>

definition np_linspace_fl :: "real \<Rightarrow> real \<Rightarrow> int \<Rightarrow> py_error + fl list" where
  "np_linspace_fl start stop num =
     (if num < 0 then Inl ValueError
      else let dv = num - 1;
               delta = binary64 (stop - start);
               y = map Fin (py_range num);
               y1 = (if dv > 0
                     then (let step = fl_div delta (Fin (real_of_int dv))
                           in if step = Fin 0
                              then map (\<lambda>v. fl_mul (fl_div v (Fin (real_of_int dv))) delta) y
                              else map (\<lambda>v. fl_mul v step) y)
                     else map (\<lambda>v. fl_mul v delta) y);
               y2 = map (\<lambda>v. fl_add v (Fin start)) y1
           in Inr (if num > 1 then y2[nat num - 1 := Fin stop] else y2))"

text \<open>
  Python's \<^verbatim>\<open>x / n\<close> on a float and an integer, and \<^verbatim>\<open>x ** k\<close> on a float, which
  raises \<^verbatim>\<open>OverflowError\<close> when the result is too large for a double.
\<close>

definition py_float_div :: "real \<Rightarrow> int \<Rightarrow> py_error + fl" where
  "py_float_div a b = (if b = 0 then Inl ZeroDivisionError else Inr (binary64 (a / real_of_int b)))"

definition py_float_pow :: "real \<Rightarrow> nat \<Rightarrow> py_error + real" where
  "py_float_pow a k = (case binary64 (a ^ k) of Fin v \<Rightarrow> Inr v | _ \<Rightarrow> Inl OverflowError)"

section \<open>The helper functions of the first code cell\<close>

text \<open>
  \<^verbatim>\<open>
  def random_walk(n, f=5000):
      xs = np.convolve(np.random.normal(0, 0.1, size=n), np.ones(f)/f).cumsum()
      ys = np.convolve(np.random.normal(0, 0.1, size=n), np.ones(f)/f).cumsum()
      xs += 0.1*np.sin(0.1*np.array(range(n-1+f))) # add wobble on x axis
      xs += np.random.normal(0, 0.005, size=n-1+f) # add measurement noise
      ys += np.random.normal(0, 0.005, size=n-1+f)
      return np.column_stack([xs, ys])
  \<close>
\<close>

definition random_walk :: "'g numpy \<Rightarrow> int \<Rightarrow> int \<Rightarrow> (real list list, 'g) np" where
  "random_walk R n f =
     bind (np_random_normal R 0 0.1 n) (\<lambda>ax.
     bind (lift (np_ones f)) (\<lambda>ones_x.
     bind (lift (np_convolve ax (map (\<lambda>v. v / real_of_int f) ones_x))) (\<lambda>cx.
     let xs0 = cumsum cx in
     bind (np_random_normal R 0 0.1 n) (\<lambda>ay.
     bind (lift (np_ones f)) (\<lambda>ones_y.
     bind (lift (np_convolve ay (map (\<lambda>v. v / real_of_int f) ones_y))) (\<lambda>cy.
     let ys0 = cumsum cy in
     bind (lift (np_iadd xs0 (map (\<lambda>v. 0.1 * sin (0.1 * v)) (py_range (n - 1 + f))))) (\<lambda>xs1.
     bind (np_random_normal R 0 0.005 (n - 1 + f)) (\<lambda>noise_x.
     bind (lift (np_iadd xs1 noise_x)) (\<lambda>xs2.
     bind (np_random_normal R 0 0.005 (n - 1 + f)) (\<lambda>noise_y.
     bind (lift (np_iadd ys0 noise_y)) (\<lambda>ys1.
     lift (np_column_stack2 xs2 ys1))))))))))))"

text \<open>
  \<^verbatim>\<open>
  def random_cov():
      A = np.random.randn(2,2)
      return np.dot(A, A.T)
  \<close>
\<close>

definition random_cov :: "'g numpy \<Rightarrow> (real list list, 'g) np" where
  "random_cov R =
     bind (np_random_randn2 R 2 2) (\<lambda>A.
     ret (np_dot A (transpose_m A)))"

text \<open>
  \<^verbatim>\<open>
  def time_series(T = 1, N = 100, mu = 0.1, sigma = 0.1, S0 = 20):
      dt = float(T)/N
      t = np.linspace(0, T, N)
      W = np.random.standard_normal(size = N)
      W = np.cumsum(W)*np.sqrt(dt) # standard brownian motion
      X = (mu-0.5*sigma**2)*t + sigma*W
      S = S0*np.exp(X) # geometric brownian motion
      return S
  \<close>
\<close>

text \<open>
  The arguments are finite numbers; \<open>T\<close>, \<open>mu\<close>, \<open>sigma\<close> and \<open>S0\<close> stand for the
  doubles they are converted to.
\<close>

definition time_series ::
  "'g numpy \<Rightarrow> real \<Rightarrow> int \<Rightarrow> real \<Rightarrow> real \<Rightarrow> real \<Rightarrow> (fl list, 'g) np" where
  "time_series R T N mu sigma S0 =
     bind (lift (py_float_div T N)) (\<lambda>dt.
     bind (lift (np_linspace_fl 0 T N)) (\<lambda>t.
     bind (np_random_standard_normal R N) (\<lambda>W0.
     let W = map (\<lambda>w. fl_mul w (fl_sqrt dt)) (fl_cumsum (map Fin W0)) in
     bind (lift (py_float_pow sigma 2)) (\<lambda>sigma2.
     let drift = fl_add (Fin mu) (fl_neg (fl_mul (Fin 0.5) (Fin sigma2)));
         X = map2 (\<lambda>ti wi. fl_add (fl_mul drift ti) (fl_mul (Fin sigma) wi)) t W;
         S = map (\<lambda>x. fl_mul (Fin S0) (fl_exp R x)) X
     in ret S))))"

section \<open>The datasets the cells construct\<close>

text \<open>
  The cells that build data, with the generator state threaded through them in
  execution order. The HoloViews containers (\<^verbatim>\<open>hv.Points\<close>, \<^verbatim>\<open>hv.Path\<close>,
  \<^verbatim>\<open>hv.Curve\<close>) only wrap the arrays and are left out; the plotting operations are
  taken not to touch NumPy's global generator.
\<close>

text \<open>
  \<^verbatim>\<open>np.random.multivariate_normal(mean, cov, size)\<close>: \<open>size\<close> rows of standard normal
  draws, each multiplied by a factor of \<open>cov\<close> and shifted by \<open>mean\<close>. A \<open>cov\<close> that is
  not square of the length of \<open>mean\<close> raises.
\<close>

definition np_random_multivariate_normal ::
  "'g numpy \<Rightarrow> real list \<Rightarrow> real list list \<Rightarrow> nat \<Rightarrow> (real list list, 'g) np" where
  "np_random_multivariate_normal R mean cov size_n =
     (\<lambda>g. if length cov = length mean \<and> list_all (\<lambda>row. length row = length mean) cov
          then (case draw_n (next_gauss R) (size_n * length mean) g of
                  (zs, g1) \<Rightarrow>
                    Inr (map (\<lambda>z. map2 (+) (map (inner z) (transpose_m (mvn_factor R cov))) mean)
                           (rows_of (length mean) zs), g1))
          else Inl ValueError)"

definition scale2 :: "real \<Rightarrow> real list list \<Rightarrow> real list list" where
  "scale2 c A = map (map ((*) c)) A"

text \<open>A comprehension whose element does not depend on the loop variable.\<close>

fun repeat_np :: "nat \<Rightarrow> ('a, 'g) np \<Rightarrow> ('a list, 'g) np" where
  "repeat_np 0 m = ret []"
| "repeat_np (Suc k) m = bind m (\<lambda>x. bind (repeat_np k m) (\<lambda>xs. ret (x # xs)))"

text \<open>
  Cell 4:
  \<^verbatim>\<open>
  np.random.seed(1)
  points = hv.Points(np.random.multivariate_normal((0,0), [[0.1, 0.1], [0.1, 1.0]], (1000,)),label="Points")
  paths = hv.Path([random_walk(2000,30)], label="Paths")
  \<close>
\<close>

definition cell_04_data :: "'g numpy \<Rightarrow> (real list list \<times> real list list list, 'g) np" where
  "cell_04_data R =
     bind (np_random_seed R 1) (\<lambda>_.
     bind (np_random_multivariate_normal R [0, 0] [[0.1, 0.1], [0.1, 1.0]] 1000) (\<lambda>points.
     bind (random_walk R 2000 30) (\<lambda>walk.
     ret (points, [walk]))))"

text \<open>
  Cell 6:
  \<^verbatim>\<open>
  np.random.seed(1)
  points = hv.Points(np.random.multivariate_normal((0,0), [[0.1, 0.1], [0.1, 1.0]], (1000000,)),label="Points")
  paths = hv.Path([0.15*random_walk(100000) for i in range(10)],label="Paths")
  \<close>
\<close>

definition cell_06_data :: "'g numpy \<Rightarrow> (real list list \<times> real list list list, 'g) np" where
  "cell_06_data R =
     bind (np_random_seed R 1) (\<lambda>_.
     bind (np_random_multivariate_normal R [0, 0] [[0.1, 0.1], [0.1, 1.0]] 1000000) (\<lambda>points.
     bind (repeat_np 10 (bind (random_walk R 100000 5000) (\<lambda>walk. ret (scale2 0.15 walk))))
       (\<lambda>paths.
     ret (points, paths))))"

text \<open>
  Cell 17:
  \<^verbatim>\<open>
  np.random.seed(3)
  num_ks=8
  def rand_gauss2d():
      return 100*np.random.multivariate_normal(np.random.randn(2), random_cov(), (100000,))
  gaussians = {i: hv.Points(rand_gauss2d(), kdims) for i in range(num_ks)}
  lines = {i: hv.Curve(time_series(N=10000, S0=200+np.random.rand())) for i in range(num_ks)}
  \<close>
\<close>

definition rand_gauss2d :: "'g numpy \<Rightarrow> (real list list, 'g) np" where
  "rand_gauss2d R =
     bind (np_random_randn1 R 2) (\<lambda>mean.
     bind (random_cov R) (\<lambda>cov.
     bind (np_random_multivariate_normal R mean cov 100000) (\<lambda>sample.
     ret (scale2 100 sample))))"

definition num_ks :: nat where
  "num_ks = 8"

definition cell_17_data ::
  "'g numpy \<Rightarrow> (real list list list \<times> fl list list, 'g) np" where
  "cell_17_data R =
     bind (np_random_seed R 3) (\<lambda>_.
     bind (repeat_np num_ks (rand_gauss2d R)) (\<lambda>gaussians.
     bind (repeat_np num_ks
             (bind (np_random_rand R) (\<lambda>u. time_series R 1 10000 0.1 0.1 (200 + u))))
       (\<lambda>lines.
     ret (gaussians, lines))))"

text \<open>
  Cell 23:
  \<^verbatim>\<open>
  dates = pd.date_range(start="2014-01-01", end="2016-01-01", freq='1D')
  curve = hv.Curve((dates, time_series(N=len(dates), sigma = 1)))
  \<close>
  The dates are day numbers counted from the start date; both ends are included.
\<close>

definition days_in_year :: "nat \<Rightarrow> nat" where
  "days_in_year y = (if y mod 4 = 0 \<and> (0 < y mod 100 \<or> y mod 400 = 0) then 366 else 365)"

definition pd_date_range_years :: "nat \<Rightarrow> nat \<Rightarrow> nat list" where
  "pd_date_range_years y0 y1 = [0..<Suc (sum_list (map days_in_year [y0..<y1]))]"

definition cell_23_data :: "'g numpy \<Rightarrow> (nat list \<times> fl list, 'g) np" where
  "cell_23_data R =
     (let dates = pd_date_range_years 2014 2016
      in bind (time_series R 1 (int (length dates)) 0.1 1 20) (\<lambda>series.
         ret (dates, series)))"

text \<open>
  Cell 30:
  \<^verbatim>\<open>
  np.random.seed(12)
  N=100
  pts = [(10*i/N, np.sin(10*i/N)) for i in range(N)]
  x = y = np.linspace(0, 5, int(np.sqrt(N)))
  xs,ys = np.meshgrid(x,y)
  z = np.sin(xs)*np.cos(ys)
  r = 0.5*np.sin(0.1*xs**2+0.05*ys**2)+0.5
  g = 0.5*np.sin(0.02*xs**2+0.2*ys**2)+0.5
  b = 0.5*np.sin(0.02*xs**2+0.02*ys**2)+0.5
  tri = hv.TriMesh.from_vertices(hv.Points(np.random.randn(N,3), vdims='z')).opts(**opts2)
  \<close>
  \<^verbatim>\<open>np.meshgrid\<close> gives two arrays of one shape, so the elementwise operations on them
  pair the entries.
\<close>

definition np_meshgrid :: "real list \<Rightarrow> real list \<Rightarrow> real list list \<times> real list list" where
  "np_meshgrid x y = (replicate (length y) x, map (\<lambda>v. replicate (length x) v) y)"

definition elementwise2 ::
  "(real \<Rightarrow> real \<Rightarrow> real) \<Rightarrow> real list list \<Rightarrow> real list list \<Rightarrow> real list list" where
  "elementwise2 f A B = map2 (map2 f) A B"

record cell_30_arrays =
  pts_30 :: "(real \<times> real) list"
  x_30 :: "real list"
  y_30 :: "real list"
  z_30 :: "real list list"
  r_30 :: "real list list"
  g_30 :: "real list list"
  b_30 :: "real list list"
  vertices_30 :: "real list list"

definition cell_30_data :: "'g numpy \<Rightarrow> (cell_30_arrays, 'g) np" where
  "cell_30_data R =
     bind (np_random_seed R 12) (\<lambda>_.
     let N = 100;
         pts = map (\<lambda>i. (10 * real i / real N, sin (10 * real i / real N))) [0..<N]
     in bind (lift (np_linspace 0 5 (\<lfloor>sqrt (real N)\<rfloor>))) (\<lambda>x.
        let y = x;
            (xs, ys) = np_meshgrid x y;
            z = elementwise2 (\<lambda>a b. sin a * cos b) xs ys;
            r = elementwise2 (\<lambda>a b. 0.5 * sin (0.1 * a\<^sup>2 + 0.05 * b\<^sup>2) + 0.5) xs ys;
            g = elementwise2 (\<lambda>a b. 0.5 * sin (0.02 * a\<^sup>2 + 0.2 * b\<^sup>2) + 0.5) xs ys;
            b = elementwise2 (\<lambda>a b. 0.5 * sin (0.02 * a\<^sup>2 + 0.02 * b\<^sup>2) + 0.5) xs ys
        in bind (np_random_randn2 R N 3) (\<lambda>vertices.
           ret \<lparr>pts_30 = pts, x_30 = x, y_30 = y, z_30 = z, r_30 = r, g_30 = g, b_30 = b,
                vertices_30 = vertices\<rparr>)))"

text \<open>
  Cell 34:
  \<^verbatim>\<open>
  curves = {'+':hv.Curve(pts), '-':hv.Curve([(x, -1.0*y) for x, y in pts])}
  \<close>
\<close>

definition cell_34_data :: "(real \<times> real) list \<Rightarrow> (real \<times> real) list \<times> (real \<times> real) list" where
  "cell_34_data pts = (pts, map (\<lambda>(x, y). (x, - 1.0 * y)) pts)"

text \<open>The data cells in the order of the notebook.\<close>

record notebook_data =
  data_04 :: "real list list \<times> real list list list"
  data_06 :: "real list list \<times> real list list list"
  data_17 :: "real list list list \<times> fl list list"
  data_23 :: "nat list \<times> fl list"
  data_30 :: cell_30_arrays
  data_34 :: "(real \<times> real) list \<times> (real \<times> real) list"

definition notebook_datasets :: "'g numpy \<Rightarrow> (notebook_data, 'g) np" where
  "notebook_datasets R =
     bind (cell_04_data R) (\<lambda>d4.
     bind (cell_06_data R) (\<lambda>d6.
     bind (cell_17_data R) (\<lambda>d17.
     bind (cell_23_data R) (\<lambda>d23.
     bind (cell_30_data R) (\<lambda>d30.
     ret \<lparr>data_04 = d4, data_06 = d6, data_17 = d17, data_23 = d23, data_30 = d30,
          data_34 = cell_34_data (pts_30 d30)\<rparr>)))))"

subsection \<open>A concrete generator\<close>

text \<open>
  A counter as generator state and a correctly rounded exponential, for evaluating the
  functions on concrete inputs.
\<close>

definition counter_rng :: "nat numpy" where
  "counter_rng =
     \<lparr>seed_state = (\<lambda>k. k), next_gauss = (\<lambda>s. (real s, Suc s)),
      next_double = (\<lambda>s. (1 / 2, Suc s)), mvn_factor = (\<lambda>c. c),
      lib_exp = (\<lambda>v. binary64 (exp v))\<rparr>"


section \<open>The notebook as a sequence of cells\<close>

text \<open>
  The repository is one Jupyter notebook. Its code cells are Python source; the claims
  about what the cells contain (which names they bind and read, what they import and
  call, whether they end in a displayed expression) are claims about that source, so the
  cells are represented by their abstract syntax, in the constructors of Python's own
  \<^verbatim>\<open>ast\<close> module. Keyword arguments stand in the argument list of their call as
  \<open>Keyword\<close> and \<open>DoubleStar\<close>. Comments are not part of the syntax tree. The
  statement forms that the notebook never uses (\<open>If\<close>, \<open>For\<close>, \<open>While\<close>,
  \<open>Try\<close>, \<open>Raise\<close>, \<open>Assert\<close>, \<open>With\<close>, and the expressions \<open>IfExp\<close> and
  \<open>Lambda\<close>) are part of the types, so that their absence is a property of the
  notebook and not of the representation. The prose of a markdown cell is not
  represented.
\<close>

datatype binop = Add | Sub | Mult | Div | PowOp

datatype expr =
    Name string
  | Num string
  | Str string
  | Const string
  | Attribute expr string
  | Call expr "expr list"
  | Keyword string expr
  | DoubleStar expr
  | BinOp expr binop expr
  | USub expr
  | ListE "expr list"
  | TupleE "expr list"
  | DictE "expr list" "expr list"
  | ListComp expr expr expr
  | DictComp expr expr expr expr
  | Subscript expr expr
  | Slice expr expr
  | IfExp expr expr expr
  | Lambda "string list" expr

datatype stmt =
    Import string string
  | ImportFrom string "string list"
  | Assign "expr list" expr
  | AugAssign expr binop expr
  | Expr expr
  | FunctionDef string "string list" "expr list" "stmt list"
  | Return expr
  | If expr "stmt list" "stmt list"
  | For expr expr "stmt list"
  | While expr "stmt list"
  | Try "stmt list" "stmt list" "stmt list"
  | Raise expr
  | Assert expr
  | With expr "stmt list"

datatype cell = Markdown | Code "stmt list"

text \<open>Cell 1.\<close>

definition cell_01 :: "stmt list" where
  "cell_01 =
    [Import ''numpy'' ''np'',
     Import ''holoviews'' ''hv'',
     ImportFrom ''holoviews'' [''opts''],
     Import ''datashader'' ''ds'',
     ImportFrom ''holoviews.operation.datashader'' [''datashade'', ''shade'', ''dynspread'', ''rasterize''],
     ImportFrom ''holoviews.operation'' [''decimate''],
     Expr (Call (Attribute (Name ''hv'') ''extension'') [Str ''bokeh'', Str ''matplotlib'']),
     Assign [Attribute (Name ''decimate'') ''max_samples'']
       (Num ''1000''),
     Assign [Attribute (Name ''dynspread'') ''max_px'']
       (Num ''20''),
     Assign [Attribute (Name ''dynspread'') ''threshold'']
       (Num ''0.5''),
     FunctionDef ''random_walk'' [''n'', ''f'']
       [Num ''5000'']
         [Expr (Str ''Random walk in a 2D space, smoothed with a filter of length f''),
          Assign [Name ''xs'']
            (Call (Attribute (Call (Attribute (Name ''np'') ''convolve'')
                   [Call (Attribute (Attribute (Name ''np'') ''random'') ''normal'')
                       [Num ''0'', Num ''0.1'', Keyword ''size'' (Name ''n'')],
                    BinOp (Call (Attribute (Name ''np'') ''ones'') [Name ''f'']) Div (Name ''f'')]) ''cumsum'')
               []),
          Assign [Name ''ys'']
            (Call (Attribute (Call (Attribute (Name ''np'') ''convolve'')
                   [Call (Attribute (Attribute (Name ''np'') ''random'') ''normal'')
                       [Num ''0'', Num ''0.1'', Keyword ''size'' (Name ''n'')],
                    BinOp (Call (Attribute (Name ''np'') ''ones'') [Name ''f'']) Div (Name ''f'')]) ''cumsum'')
               []),
          AugAssign (Name ''xs'') Add
            (BinOp (Num ''0.1'') Mult (Call (Attribute (Name ''np'') ''sin'')
                 [BinOp (Num ''0.1'') Mult (Call (Attribute (Name ''np'') ''array'')
                       [Call (Name ''range'')
                           [BinOp (BinOp (Name ''n'') Sub (Num ''1'')) Add (Name ''f'')]])])),
          AugAssign (Name ''xs'') Add
            (Call (Attribute (Attribute (Name ''np'') ''random'') ''normal'')
               [Num ''0'',
                Num ''0.005'',
                Keyword ''size'' (BinOp (BinOp (Name ''n'') Sub (Num ''1'')) Add (Name ''f''))]),
          AugAssign (Name ''ys'') Add
            (Call (Attribute (Attribute (Name ''np'') ''random'') ''normal'')
               [Num ''0'',
                Num ''0.005'',
                Keyword ''size'' (BinOp (BinOp (Name ''n'') Sub (Num ''1'')) Add (Name ''f''))]),
          Return (Call (Attribute (Name ''np'') ''column_stack'')
                    [ListE [Name ''xs'', Name ''ys'']])],
     FunctionDef ''random_cov'' []
       []
         [Expr (Str ''Random covariance for use in generating 2D Gaussian distributions''),
          Assign [Name ''A'']
            (Call (Attribute (Attribute (Name ''np'') ''random'') ''randn'')
               [Num ''2'', Num ''2'']),
          Return (Call (Attribute (Name ''np'') ''dot'')
                    [Name ''A'', Attribute (Name ''A'') ''T''])],
     FunctionDef ''time_series'' [''T'', ''N'', ''mu'', ''sigma'', ''S0'']
       [Num ''1'', Num ''100'', Num ''0.1'', Num ''0.1'', Num ''20'']
         [Expr (Str ''Parameterized noisy time series''),
          Assign [Name ''dt'']
            (BinOp (Call (Name ''float'') [Name ''T'']) Div (Name ''N'')),
          Assign [Name ''t'']
            (Call (Attribute (Name ''np'') ''linspace'') [Num ''0'', Name ''T'', Name ''N'']),
          Assign [Name ''W'']
            (Call (Attribute (Attribute (Name ''np'') ''random'') ''standard_normal'')
               [Keyword ''size'' (Name ''N'')]),
          Assign [Name ''W'']
            (BinOp (Call (Attribute (Name ''np'') ''cumsum'') [Name ''W'']) Mult (Call (Attribute (Name ''np'') ''sqrt'') [Name ''dt''])),
          Assign [Name ''X'']
            (BinOp (BinOp (BinOp (Name ''mu'') Sub (BinOp (Num ''0.5'') Mult (BinOp (Name ''sigma'') PowOp (Num ''2'')))) Mult (Name ''t'')) Add (BinOp (Name ''sigma'') Mult (Name ''W''))),
          Assign [Name ''S'']
            (BinOp (Name ''S0'') Mult (Call (Attribute (Name ''np'') ''exp'') [Name ''X''])),
          Return (Name ''S'')]]"

text \<open>Cell 4.\<close>

definition cell_04 :: "stmt list" where
  "cell_04 =
    [Expr (Call (Attribute (Attribute (Name ''np'') ''random'') ''seed'') [Num ''1'']),
     Assign [Name ''points'']
       (Call (Attribute (Name ''hv'') ''Points'')
          [Call (Attribute (Attribute (Name ''np'') ''random'') ''multivariate_normal'')
              [TupleE [Num ''0'', Num ''0''],
               ListE [ListE [Num ''0.1'', Num ''0.1''], ListE [Num ''0.1'', Num ''1.0'']],
               TupleE [Num ''1000'']],
           Keyword ''label'' (Str ''Points'')]),
     Assign [Name ''paths'']
       (Call (Attribute (Name ''hv'') ''Path'')
          [ListE [Call (Name ''random_walk'') [Num ''2000'', Num ''30'']],
           Keyword ''label'' (Str ''Paths'')]),
     Expr (BinOp (Name ''points'') Add (Name ''paths''))]"

text \<open>Cell 6.\<close>

definition cell_06 :: "stmt list" where
  "cell_06 =
    [Expr (Call (Attribute (Attribute (Name ''np'') ''random'') ''seed'') [Num ''1'']),
     Assign [Name ''points'']
       (Call (Attribute (Name ''hv'') ''Points'')
          [Call (Attribute (Attribute (Name ''np'') ''random'') ''multivariate_normal'')
              [TupleE [Num ''0'', Num ''0''],
               ListE [ListE [Num ''0.1'', Num ''0.1''], ListE [Num ''0.1'', Num ''1.0'']],
               TupleE [Num ''1000000'']],
           Keyword ''label'' (Str ''Points'')]),
     Assign [Name ''paths'']
       (Call (Attribute (Name ''hv'') ''Path'')
          [ListComp (BinOp (Num ''0.15'') Mult (Call (Name ''random_walk'') [Num ''100000'']))
              (Name ''i'') (Call (Name ''range'') [Num ''10'']),
           Keyword ''label'' (Str ''Paths'')])]"

text \<open>Cell 8.\<close>

definition cell_08 :: "stmt list" where
  "cell_08 =
    [Expr (BinOp (BinOp (Call (Name ''decimate'') [Name ''points'']) Add (Call (Name ''datashade'') [Name ''points''])) Add (Call (Name ''datashade'') [Name ''paths'']))]"

text \<open>Cell 10.\<close>

definition cell_10 :: "stmt list" where
  "cell_10 =
    [Expr (BinOp (BinOp (Call (Attribute (Call (Name ''rasterize'') [Name ''points'']) ''hist'') []) Add (Call (Name ''shade'') [Call (Name ''rasterize'') [Name ''points'']])) Add (Call (Name ''datashade'') [Name ''points'']))]"

text \<open>Cell 13.\<close>

definition cell_13 :: "stmt list" where
  "cell_13 =
    [Expr (BinOp (Call (Name ''datashade'') [Name ''points'']) Add (Call (Name ''dynspread'') [Call (Name ''datashade'') [Name ''points'']]))]"

text \<open>Cell 15.\<close>

definition cell_15 :: "stmt list" where
  "cell_15 =
    [Expr (BinOp (Call (Name ''datashade'') [Name ''paths'']) Add (Call (Name ''dynspread'') [Call (Name ''datashade'') [Name ''paths'']]))]"

text \<open>Cell 17.\<close>

definition cell_17 :: "stmt list" where
  "cell_17 =
    [Expr (Call (Attribute (Attribute (Name ''np'') ''random'') ''seed'') [Num ''3'']),
     Assign [Name ''kdims'']
       (ListE [Str ''d1'', Str ''d2'']),
     Assign [Name ''num_ks'']
       (Num ''8''),
     FunctionDef ''rand_gauss2d'' []
       []
         [Return (BinOp (Num ''100'') Mult (Call (Attribute (Attribute (Name ''np'') ''random'') ''multivariate_normal'')
                      [Call (Attribute (Attribute (Name ''np'') ''random'') ''randn'')
                          [Num ''2''],
                       Call (Name ''random_cov'') [],
                       TupleE [Num ''100000'']]))],
     Assign [Name ''gaussians'']
       (DictComp (Name ''i'')
          (Call (Attribute (Name ''hv'') ''Points'')
             [Call (Name ''rand_gauss2d'') [], Name ''kdims''])
          (Name ''i'') (Call (Name ''range'') [Name ''num_ks''])),
     Assign [Name ''lines'']
       (DictComp (Name ''i'')
          (Call (Attribute (Name ''hv'') ''Curve'')
             [Call (Name ''time_series'')
                 [Keyword ''N'' (Num ''10000''),
                  Keyword ''S0'' (BinOp (Num ''200'') Add (Call (Attribute (Attribute (Name ''np'') ''random'') ''rand'') []))]])
          (Name ''i'') (Call (Name ''range'') [Name ''num_ks''])),
     Assign [Name ''gaussspread'']
       (Call (Name ''dynspread'')
          [Call (Name ''datashade'')
              [Call (Attribute (Name ''hv'') ''NdOverlay'')
                  [Name ''gaussians'', Keyword ''kdims'' (Str ''k'')],
               Keyword ''aggregator'' (Call (Attribute (Name ''ds'') ''count_cat'') [Str ''k''])]]),
     Assign [Name ''linespread'']
       (Call (Name ''dynspread'')
          [Call (Name ''datashade'')
              [Call (Attribute (Name ''hv'') ''NdOverlay'')
                  [Name ''lines'', Keyword ''kdims'' (Str ''k'')],
               Keyword ''aggregator'' (Call (Attribute (Name ''ds'') ''count_cat'') [Str ''k''])]]),
     Expr (Call (Attribute (BinOp (Name ''gaussspread'') Add (Name ''linespread'')) ''opts'')
             [Call (Attribute (Name ''opts'') ''RGB'') [Keyword ''width'' (Num ''400'')]])]"

text \<open>Cell 19.\<close>

definition cell_19 :: "stmt list" where
  "cell_19 =
    [Assign [Name ''gaussspread'']
       (Call (Name ''dynspread'')
          [Call (Name ''datashade'')
              [Call (Attribute (Name ''hv'') ''NdOverlay'')
                  [Name ''gaussians'', Keyword ''kdims'' (ListE [Str ''k''])],
               Keyword ''aggregator'' (Call (Attribute (Name ''ds'') ''count_cat'') [Str ''k''])]]),
     ImportFrom ''datashader.colors'' [''Sets1to3''],
     Assign [Name ''color_key'']
       (Call (Name ''list'')
          [Call (Name ''enumerate'')
              [Subscript (Name ''Sets1to3'') (Slice (Num ''0'') (Name ''num_ks''))]]),
     Assign [Name ''color_points'']
       (Call (Attribute (Name ''hv'') ''NdOverlay'')
          [DictComp (Name ''k'')
              (Call (Attribute (Call (Attribute (Name ''hv'') ''Points'')
                     [ListE [Num ''0'', Num ''0''],
                      Keyword ''label'' (Call (Name ''str'') [Name ''k''])]) ''opts'')
                 [Keyword ''color'' (Name ''v'')])
              (TupleE [Name ''k'', Name ''v'']) (Name ''color_key'')]),
     Expr (Call (Attribute (BinOp (Name ''color_points'') Mult (Name ''gaussspread'')) ''opts'')
             [Keyword ''width'' (Num ''600'')])]"

text \<open>Cell 23.\<close>

definition cell_23 :: "stmt list" where
  "cell_23 =
    [Import ''pandas'' ''pd'',
     Assign [Name ''dates'']
       (Call (Attribute (Name ''pd'') ''date_range'')
          [Keyword ''start'' (Str ''2014-01-01''),
           Keyword ''end'' (Str ''2016-01-01''),
           Keyword ''freq'' (Str ''1D'')]),
     Assign [Name ''curve'']
       (Call (Attribute (Name ''hv'') ''Curve'')
          [TupleE [Name ''dates'',
                    Call (Name ''time_series'')
                [Keyword ''N'' (Call (Name ''len'') [Name ''dates'']),
                 Keyword ''sigma'' (Num ''1'')]]]),
     Expr (Call (Attribute (Call (Name ''datashade'') [Name ''curve'', Keyword ''cmap'' (ListE [Str ''blue''])]) ''opts'')
             [Keyword ''width'' (Num ''800'')])]"

text \<open>Cell 25.\<close>

definition cell_25 :: "stmt list" where
  "cell_25 =
    [ImportFrom ''holoviews.operation.timeseries'' [''rolling'', ''rolling_outlier_std''],
     Assign [Name ''smoothed'']
       (Call (Name ''rolling'') [Name ''curve'', Keyword ''rolling_window'' (Num ''50'')]),
     Assign [Name ''outliers'']
       (Call (Name ''rolling_outlier_std'')
          [Name ''curve'',
           Keyword ''rolling_window'' (Num ''50''),
           Keyword ''sigma'' (Num ''2'')]),
     Assign [Name ''ds_curve'']
       (Call (Name ''datashade'') [Name ''curve'', Keyword ''cmap'' (ListE [Str ''blue''])]),
     Assign [Name ''spread'']
       (Call (Name ''dynspread'')
          [Call (Name ''datashade'') [Name ''smoothed'', Keyword ''cmap'' (ListE [Str ''red''])],
           Keyword ''max_px'' (Num ''1'')]),
     Expr (Call (Attribute (BinOp (BinOp (Name ''ds_curve'') Mult (Name ''spread'')) Mult (Name ''outliers'')) ''opts'')
             [Call (Attribute (Name ''opts'') ''Scatter'')
                 [Keyword ''line_color'' (Str ''black''),
                  Keyword ''fill_color'' (Str ''red''),
                  Keyword ''size'' (Num ''10''),
                  Keyword ''tools'' (ListE [Str ''hover'', Str ''box_select'']),
                  Keyword ''width'' (Num ''800'')]])]"

text \<open>Cell 27.\<close>

definition cell_27 :: "stmt list" where
  "cell_27 =
    [ImportFrom ''holoviews.streams'' [''RangeXY''],
     Assign [Name ''fixed_hover'']
       (BinOp (Call (Name ''datashade'')
            [Name ''points'', Keyword ''width'' (Num ''400''), Keyword ''height'' (Num ''400'')]) Mult (Call (Attribute (Name ''hv'') ''QuadMesh'')
            [Call (Name ''rasterize'')
                [Name ''points'',
                 Keyword ''width'' (Num ''10''),
                 Keyword ''height'' (Num ''10''),
                 Keyword ''dynamic'' (Const ''False'')]])),
     Assign [Name ''dynamic_hover'']
       (BinOp (Call (Name ''datashade'')
            [Name ''points'', Keyword ''width'' (Num ''400''), Keyword ''height'' (Num ''400'')]) Mult (Call (Attribute (Attribute (Name ''hv'') ''util'') ''Dynamic'')
            [Call (Name ''rasterize'')
                [Name ''points'',
                 Keyword ''width'' (Num ''10''),
                 Keyword ''height'' (Num ''10''),
                 Keyword ''streams'' (ListE [Name ''RangeXY''])],
             Keyword ''operation'' (Attribute (Name ''hv'') ''QuadMesh'')])),
     Expr (Call (Attribute (BinOp (Name ''fixed_hover'') Add (Name ''dynamic_hover'')) ''opts'')
             [Call (Attribute (Name ''opts'') ''QuadMesh'')
                 [Keyword ''tools'' (ListE [Str ''hover'']),
                  Keyword ''alpha'' (Num ''0''),
                  Keyword ''hover_alpha'' (Num ''0.2'')]])]"

text \<open>Cell 30.\<close>

definition cell_30 :: "stmt list" where
  "cell_30 =
    [Expr (Call (Attribute (Name ''hv'') ''output'') [Keyword ''backend'' (Str ''matplotlib'')]),
     Expr (Call (Attribute (Name ''opts'') ''defaults'')
             [Call (Attribute (Name ''opts'') ''Image'')
                 [Keyword ''aspect'' (Num ''1''),
                  Keyword ''axiswise'' (Const ''True''),
                  Keyword ''xaxis'' (Str ''bare''),
                  Keyword ''yaxis'' (Str ''bare'')],
              Call (Attribute (Name ''opts'') ''RGB'')
                 [Keyword ''aspect'' (Num ''1''),
                  Keyword ''axiswise'' (Const ''True''),
                  Keyword ''xaxis'' (Str ''bare''),
                  Keyword ''yaxis'' (Str ''bare'')],
              Call (Attribute (Name ''opts'') ''Layout'')
                 [Keyword ''vspace'' (Num ''0.1''),
                  Keyword ''hspace'' (Num ''0.1''),
                  Keyword ''sublabel_format'' (Str '''')]]),
     Expr (Call (Attribute (Attribute (Name ''np'') ''random'') ''seed'') [Num ''12'']),
     Assign [Name ''N'']
       (Num ''100''),
     Assign [Name ''pts'']
       (ListComp (TupleE [BinOp (BinOp (Num ''10'') Mult (Name ''i'')) Div (Name ''N''),
                          Call (Attribute (Name ''np'') ''sin'')
                      [BinOp (BinOp (Num ''10'') Mult (Name ''i'')) Div (Name ''N'')]])
          (Name ''i'') (Call (Name ''range'') [Name ''N''])),
     Assign [Name ''x'', Name ''y'']
       (Call (Attribute (Name ''np'') ''linspace'')
          [Num ''0'',
           Num ''5'',
           Call (Name ''int'') [Call (Attribute (Name ''np'') ''sqrt'') [Name ''N'']]]),
     Assign [TupleE [Name ''xs'', Name ''ys'']]
       (Call (Attribute (Name ''np'') ''meshgrid'') [Name ''x'', Name ''y'']),
     Assign [Name ''z'']
       (BinOp (Call (Attribute (Name ''np'') ''sin'') [Name ''xs'']) Mult (Call (Attribute (Name ''np'') ''cos'') [Name ''ys''])),
     Assign [Name ''r'']
       (BinOp (BinOp (Num ''0.5'') Mult (Call (Attribute (Name ''np'') ''sin'')
              [BinOp (BinOp (Num ''0.1'') Mult (BinOp (Name ''xs'') PowOp (Num ''2''))) Add (BinOp (Num ''0.05'') Mult (BinOp (Name ''ys'') PowOp (Num ''2'')))])) Add (Num ''0.5'')),
     Assign [Name ''g'']
       (BinOp (BinOp (Num ''0.5'') Mult (Call (Attribute (Name ''np'') ''sin'')
              [BinOp (BinOp (Num ''0.02'') Mult (BinOp (Name ''xs'') PowOp (Num ''2''))) Add (BinOp (Num ''0.2'') Mult (BinOp (Name ''ys'') PowOp (Num ''2'')))])) Add (Num ''0.5'')),
     Assign [Name ''b'']
       (BinOp (BinOp (Num ''0.5'') Mult (Call (Attribute (Name ''np'') ''sin'')
              [BinOp (BinOp (Num ''0.02'') Mult (BinOp (Name ''xs'') PowOp (Num ''2''))) Add (BinOp (Num ''0.02'') Mult (BinOp (Name ''ys'') PowOp (Num ''2'')))])) Add (Num ''0.5'')),
     Assign [Name ''opts2'']
       (Call (Name ''dict'')
          [Keyword ''filled'' (Const ''True''), Keyword ''edge_color'' (Str ''z'')]),
     Assign [Name ''tri'']
       (Call (Attribute (Call (Attribute (Attribute (Name ''hv'') ''TriMesh'') ''from_vertices'')
              [Call (Attribute (Name ''hv'') ''Points'')
                  [Call (Attribute (Attribute (Name ''np'') ''random'') ''randn'')
                      [Name ''N'', Num ''3''],
                   Keyword ''vdims'' (Str ''z'')]]) ''opts'')
          [DoubleStar (Name ''opts2'')]),
     Expr (Call (Attribute (BinOp (BinOp (BinOp (Name ''tri'') Add (Attribute (Name ''tri'') ''edgepaths'')) Add (Call (Name ''datashade'')
                     [Name ''tri'',
                      Keyword ''aggregator'' (Call (Attribute (Name ''ds'') ''mean'') [Str ''z''])])) Add (Call (Name ''datashade'') [Attribute (Name ''tri'') ''edgepaths''])) ''cols'')
             [Num ''2'']),
     Assign [Name ''shadeable'']
       (ListComp (Call (Name ''elemtype'') [Name ''pts''])
          (Name ''elemtype'') (ListE [Attribute (Name ''hv'') ''Curve'',
                 Attribute (Name ''hv'') ''Scatter'',
                 Attribute (Name ''hv'') ''Points''])),
     AugAssign (Name ''shadeable'') Add
       (ListE [Call (Attribute (Name ''hv'') ''Path'') [ListE [Name ''pts'']]]),
     AugAssign (Name ''shadeable'') Add
       (ListE [Call (Attribute (Name ''hv'') ''Image'') [TupleE [Name ''x'', Name ''y'', Name ''z'']],
               Call (Attribute (Name ''hv'') ''QuadMesh'')
            [TupleE [Name ''x'', Name ''y'', Name ''z'']]]),
     AugAssign (Name ''shadeable'') Add
       (ListE [Call (Attribute (Name ''hv'') ''Graph'')
            [TupleE [TupleE [Call (Attribute (Name ''np'') ''zeros'') [Name ''N''],
                        Call (Attribute (Name ''np'') ''arange'') [Name ''N'']]]]]),
     AugAssign (Name ''shadeable'') Add
       (ListE [Attribute (Name ''tri'') ''edgepaths'']),
     AugAssign (Name ''shadeable'') Add
       (ListE [Name ''tri'']),
     AugAssign (Name ''shadeable'') Add
       (ListE [Call (Attribute (Attribute (Name ''hv'') ''operation'') ''contours'')
            [Call (Attribute (Name ''hv'') ''Image'')
                [TupleE [Name ''x'', Name ''y'', Name ''z'']],
             Keyword ''levels'' (Num ''10'')]]),
     Assign [Name ''rasterizable'']
       (ListE [Call (Attribute (Name ''hv'') ''RGB'')
            [Call (Attribute (Name ''np'') ''dstack'')
                [ListE [Name ''r'', Name ''g'', Name ''b'']]],
               Call (Attribute (Name ''hv'') ''HSV'')
            [Call (Attribute (Name ''np'') ''dstack'')
                [ListE [Name ''g'', Name ''b'', Name ''r'']]]]),
     Expr (Call (Attribute (Call (Attribute (Name ''hv'') ''Layout'')
                 [BinOp (ListComp (Call (Name ''dynspread'')
                                 [Call (Name ''datashade'')
                                     [Call (Attribute (Name ''e'') ''relabel'')
                                         [Attribute (Attribute (Name ''e'') ''__class__'') ''name'']]])
                       (Name ''e'') (Name ''shadeable'')) Add (ListComp (Call (Name ''rasterize'')
                                 [Call (Attribute (Name ''e'') ''relabel'')
                                     [Attribute (Attribute (Name ''e'') ''__class__'') ''name'']])
                       (Name ''e'') (Name ''rasterizable''))]) ''cols'')
             [Num ''6''])]"

text \<open>Cell 32.\<close>

definition cell_32 :: "stmt list" where
  "cell_32 =
    [Assign [Name ''rgb_opts'']
       (Call (Attribute (Name ''opts'') ''RGB'')
          [Keyword ''aspect'' (Num ''1''),
           Keyword ''axiswise'' (Const ''True''),
           Keyword ''xaxis'' (Str ''bare''),
           Keyword ''yaxis'' (Str ''bare'')]),
     Expr (Call (Attribute (Call (Attribute (Name ''hv'') ''Layout'')
                 [ListComp (Call (Attribute (Call (Attribute (Name ''e'') ''relabel'')
                                   [Attribute (Attribute (Name ''e'') ''__class__'') ''name'']) ''opts'')
                               [Name ''rgb_opts''])
                     (Name ''e'') (BinOp (Name ''shadeable'') Add (Name ''rasterizable''))]) ''cols'')
             [Num ''6''])]"

text \<open>Cell 34.\<close>

definition cell_34 :: "stmt list" where
  "cell_34 =
    [Expr (Call (Attribute (Name ''hv'') ''output'')
             [Keyword ''dpi'' (Num ''80''), Keyword ''size'' (Num ''100'')]),
     Assign [Name ''curves'']
       (DictE [Str ''+'', Str ''-''] [Call (Attribute (Name ''hv'') ''Curve'') [Name ''pts''],
               Call (Attribute (Name ''hv'') ''Curve'')
            [ListComp (TupleE [Name ''x'', BinOp (USub (Num ''1.0'')) Mult (Name ''y'')])
                (TupleE [Name ''x'', Name ''y'']) (Name ''pts'')]]),
     Assign [Name ''supported'']
       (ListE [Call (Attribute (Name ''hv'') ''HoloMap'') [Name ''curves'', Str ''sign''],
               Call (Attribute (Name ''hv'') ''Overlay'')
            [Call (Name ''list'') [Call (Attribute (Name ''curves'') ''values'') []]],
               Call (Attribute (Name ''hv'') ''NdOverlay'') [Name ''curves''],
               Call (Attribute (Name ''hv'') ''GridSpace'')
            [Call (Attribute (Name ''hv'') ''NdOverlay'') [Name ''curves'']]]),
     Expr (Call (Attribute (Call (Attribute (Name ''hv'') ''Layout'')
                 [ListComp (Call (Name ''datashade'')
                               [Call (Attribute (Name ''e'') ''relabel'')
                                   [Attribute (Attribute (Name ''e'') ''__class__'') ''name'']])
                     (Name ''e'') (Name ''supported'')]) ''cols'')
             [Num ''4''])]"

text \<open>Cell 35.\<close>

definition cell_35 :: "stmt list" where
  "cell_35 =
    [Expr (Call (Name ''dynspread'')
             [Call (Name ''datashade'')
                 [Call (Attribute (Name ''hv'') ''NdLayout'') [Name ''curves'', Str ''sign'']]])]"

definition notebook :: "cell list" where
  "notebook =
    [Markdown, Code cell_01, Markdown, Markdown, Code cell_04, Markdown,
     Code cell_06, Markdown, Code cell_08, Markdown, Code cell_10, Markdown,
     Markdown, Code cell_13, Markdown, Code cell_15, Markdown, Code cell_17,
     Markdown, Code cell_19, Markdown, Markdown, Markdown, Code cell_23,
     Markdown, Code cell_25, Markdown, Code cell_27, Markdown, Markdown,
     Code cell_30, Markdown, Code cell_32, Markdown, Code cell_34, Code cell_35,
     Markdown]"

subsection \<open>Names bound and read\<close>

text \<open>The names an assignment or comprehension target binds.\<close>

fun target_names :: "expr \<Rightarrow> string list" where
  "target_names (Name x) = [x]"
| "target_names (TupleE es) = concat (map target_names es)"
| "target_names (ListE es) = concat (map target_names es)"
| "target_names _ = []"

text \<open>
  The free names an expression reads. A comprehension evaluates its iterable in the
  enclosing scope and binds its target in a scope of its own.
\<close>

fun reads_e :: "expr \<Rightarrow> string list" where
  "reads_e (Name x) = [x]"
| "reads_e (Num _) = []"
| "reads_e (Str _) = []"
| "reads_e (Const _) = []"
| "reads_e (Attribute e _) = reads_e e"
| "reads_e (Call f args) = reads_e f @ concat (map reads_e args)"
| "reads_e (Keyword _ e) = reads_e e"
| "reads_e (DoubleStar e) = reads_e e"
| "reads_e (BinOp a _ b) = reads_e a @ reads_e b"
| "reads_e (USub e) = reads_e e"
| "reads_e (ListE es) = concat (map reads_e es)"
| "reads_e (TupleE es) = concat (map reads_e es)"
| "reads_e (DictE ks vs) = concat (map reads_e ks) @ concat (map reads_e vs)"
| "reads_e (ListComp elt tgt it) =
     reads_e it @ filter (\<lambda>x. x \<notin> set (target_names tgt)) (reads_e elt)"
| "reads_e (DictComp k v tgt it) =
     reads_e it @ filter (\<lambda>x. x \<notin> set (target_names tgt)) (reads_e k @ reads_e v)"
| "reads_e (Subscript e i) = reads_e e @ reads_e i"
| "reads_e (Slice a b) = reads_e a @ reads_e b"
| "reads_e (IfExp c a b) = reads_e c @ reads_e a @ reads_e b"
| "reads_e (Lambda ps e) = filter (\<lambda>x. x \<notin> set ps) (reads_e e)"

text \<open>What an assignment reads to find the object it stores into.\<close>

fun target_reads :: "expr \<Rightarrow> string list" where
  "target_reads (Attribute e _) = reads_e e"
| "target_reads (Subscript e i) = reads_e e @ reads_e i"
| "target_reads (TupleE es) = concat (map target_reads es)"
| "target_reads (ListE es) = concat (map target_reads es)"
| "target_reads _ = []"

text \<open>The names a statement binds in the scope it stands in.\<close>

fun binds_s :: "stmt \<Rightarrow> string list" where
  "binds_s (Import _ a) = [a]"
| "binds_s (ImportFrom _ ns) = ns"
| "binds_s (Assign ts _) = concat (map target_names ts)"
| "binds_s (AugAssign t _ _) = target_names t"
| "binds_s (Expr _) = []"
| "binds_s (FunctionDef f _ _ _) = [f]"
| "binds_s (Return _) = []"
| "binds_s (If _ a b) = concat (map binds_s a) @ concat (map binds_s b)"
| "binds_s (For t _ body) = target_names t @ concat (map binds_s body)"
| "binds_s (While _ body) = concat (map binds_s body)"
| "binds_s (Try a h f) = concat (map binds_s a) @ concat (map binds_s h) @ concat (map binds_s f)"
| "binds_s (Raise _) = []"
| "binds_s (Assert _) = []"
| "binds_s (With _ body) = concat (map binds_s body)"

text \<open>
  The names a statement reads from the scope it stands in. A function definition reads
  what its defaults read and what its body reads of names that are neither parameters
  nor assigned in the body (Python makes every name assigned in a body local to it).
\<close>

fun reads_s :: "stmt \<Rightarrow> string list" where
  "reads_s (Import _ _) = []"
| "reads_s (ImportFrom _ _) = []"
| "reads_s (Assign ts v) = reads_e v @ concat (map target_reads ts)"
| "reads_s (AugAssign t _ v) = reads_e t @ reads_e v"
| "reads_s (Expr e) = reads_e e"
| "reads_s (FunctionDef _ ps ds body) =
     concat (map reads_e ds) @
     filter (\<lambda>x. x \<notin> set ps \<and> x \<notin> set (concat (map binds_s body)))
       (concat (map reads_s body))"
| "reads_s (Return e) = reads_e e"
| "reads_s (If c a b) = reads_e c @ concat (map reads_s a) @ concat (map reads_s b)"
| "reads_s (For t it body) = reads_e it @ target_reads t @ concat (map reads_s body)"
| "reads_s (While c body) = reads_e c @ concat (map reads_s body)"
| "reads_s (Try a h f) = concat (map reads_s a) @ concat (map reads_s h) @ concat (map reads_s f)"
| "reads_s (Raise e) = reads_e e"
| "reads_s (Assert e) = reads_e e"
| "reads_s (With e body) = reads_e e @ concat (map reads_s body)"

text \<open>
  The names a block of statements reads before it has bound them itself: what it needs
  from the cells executed before it.
\<close>

fun exposed_reads :: "stmt list \<Rightarrow> string list" where
  "exposed_reads [] = []"
| "exposed_reads (s # ss) = reads_s s @ filter (\<lambda>x. x \<notin> set (binds_s s)) (exposed_reads ss)"

text \<open>The names a statement binds by assignment (not by import or definition).\<close>

fun assigns_s :: "stmt \<Rightarrow> string list" where
  "assigns_s (Assign ts _) = concat (map target_names ts)"
| "assigns_s (AugAssign t _ _) = target_names t"
| "assigns_s (If _ a b) = concat (map assigns_s a) @ concat (map assigns_s b)"
| "assigns_s (For t _ body) = target_names t @ concat (map assigns_s body)"
| "assigns_s (While _ body) = concat (map assigns_s body)"
| "assigns_s (Try a h f) =
     concat (map assigns_s a) @ concat (map assigns_s h) @ concat (map assigns_s f)"
| "assigns_s (With _ body) = concat (map assigns_s body)"
| "assigns_s _ = []"

text \<open>A list without its repetitions, in the order of first occurrence.\<close>

definition unique :: "'a list \<Rightarrow> 'a list" where
  "unique xs = rev (remdups (rev xs))"

fun cell_stmts :: "cell \<Rightarrow> stmt list" where
  "cell_stmts Markdown = []"
| "cell_stmts (Code ss) = ss"

fun is_code :: "cell \<Rightarrow> bool" where
  "is_code Markdown = False"
| "is_code (Code _) = True"

definition cell_assigns :: "cell \<Rightarrow> string list" where
  "cell_assigns c = unique (concat (map assigns_s (cell_stmts c)))"

definition cell_reads :: "cell \<Rightarrow> string list" where
  "cell_reads c = unique (exposed_reads (cell_stmts c))"

text \<open>What a cell assigns and what it reads from the cells above it.\<close>

definition names_of :: "cell \<Rightarrow> string list \<times> string list" where
  "names_of c = (cell_assigns c, cell_reads c)"

definition indexed :: "'a list \<Rightarrow> (nat \<times> 'a) list" where
  "indexed xs = zip [0..<length xs] xs"

text \<open>
  The assigned names that stay in use: a name assigned in one cell and read, before any
  rebinding there, by a cell further down.
\<close>

fun read_later_of :: "(string list \<times> string list) list \<Rightarrow> string list" where
  "read_later_of [] = []"
| "read_later_of (c # cs) =
     filter (\<lambda>x. x \<in> set (concat (map snd cs))) (fst c) @ read_later_of cs"

definition read_later :: "cell list \<Rightarrow> string list" where
  "read_later nb = read_later_of (map names_of nb)"

definition assigned_names :: "cell list \<Rightarrow> string list" where
  "assigned_names nb = unique (concat (map fst (map names_of nb)))"

text \<open>The cells (by position) that assign a name, and those that read it from above.\<close>

definition assigners :: "cell list \<Rightarrow> string \<Rightarrow> nat list" where
  "assigners nb x = map fst (filter (\<lambda>ic. x \<in> set (fst (snd ic))) (indexed (map names_of nb)))"

definition readers :: "cell list \<Rightarrow> string \<Rightarrow> nat list" where
  "readers nb x = map fst (filter (\<lambda>ic. x \<in> set (snd (snd ic))) (indexed (map names_of nb)))"

subsection \<open>Displayed output\<close>

text \<open>
  The notebook front end displays the value of a cell's last statement when that
  statement is an expression; no cell calls \<^verbatim>\<open>display\<close> or \<^verbatim>\<open>print\<close> itself.
\<close>

fun is_expression :: "stmt \<Rightarrow> bool" where
  "is_expression (Expr _) = True"
| "is_expression _ = False"

fun ends_in_expression :: "cell \<Rightarrow> bool" where
  "ends_in_expression Markdown = False"
| "ends_in_expression (Code ss) = (ss \<noteq> [] \<and> is_expression (last ss))"

definition code_cells :: "cell list \<Rightarrow> nat list" where
  "code_cells nb = map fst (filter (\<lambda>(i, c). is_code c) (indexed nb))"

definition silent_cells :: "cell list \<Rightarrow> nat list" where
  "silent_cells nb =
     map fst (filter (\<lambda>(i, c). is_code c \<and> \<not> ends_in_expression c) (indexed nb))"

definition displaying_cells :: "cell list \<Rightarrow> nat list" where
  "displaying_cells nb =
     map fst (filter (\<lambda>(i, c). is_code c \<and> ends_in_expression c) (indexed nb))"

subsection \<open>Statements and expressions at any depth\<close>

fun sub_stmts :: "stmt \<Rightarrow> stmt list" where
  "sub_stmts (FunctionDef f ps ds body) = FunctionDef f ps ds body # concat (map sub_stmts body)"
| "sub_stmts (If c a b) = If c a b # concat (map sub_stmts a) @ concat (map sub_stmts b)"
| "sub_stmts (For t it body) = For t it body # concat (map sub_stmts body)"
| "sub_stmts (While c body) = While c body # concat (map sub_stmts body)"
| "sub_stmts (Try a h f) =
     Try a h f # concat (map sub_stmts a) @ concat (map sub_stmts h) @ concat (map sub_stmts f)"
| "sub_stmts (With e body) = With e body # concat (map sub_stmts body)"
| "sub_stmts s = [s]"

text \<open>
  \<open>collect_e f e\<close> applies \<open>f\<close> to \<open>e\<close> and to every expression inside it, and
  appends what \<open>f\<close> finds.
\<close>

fun collect_e :: "(expr \<Rightarrow> 'a list) \<Rightarrow> expr \<Rightarrow> 'a list" where
  "collect_e f (Name x) = f (Name x)"
| "collect_e f (Num n) = f (Num n)"
| "collect_e f (Str s) = f (Str s)"
| "collect_e f (Const c) = f (Const c)"
| "collect_e f (Attribute e a) = f (Attribute e a) @ collect_e f e"
| "collect_e f (Call g args) = f (Call g args) @ collect_e f g @ concat (map (collect_e f) args)"
| "collect_e f (Keyword k e) = f (Keyword k e) @ collect_e f e"
| "collect_e f (DoubleStar e) = f (DoubleStar e) @ collect_e f e"
| "collect_e f (BinOp a op b) = f (BinOp a op b) @ collect_e f a @ collect_e f b"
| "collect_e f (USub e) = f (USub e) @ collect_e f e"
| "collect_e f (ListE es) = f (ListE es) @ concat (map (collect_e f) es)"
| "collect_e f (TupleE es) = f (TupleE es) @ concat (map (collect_e f) es)"
| "collect_e f (DictE ks vs) =
     f (DictE ks vs) @ concat (map (collect_e f) ks) @ concat (map (collect_e f) vs)"
| "collect_e f (ListComp elt tgt it) =
     f (ListComp elt tgt it) @ collect_e f elt @ collect_e f tgt @ collect_e f it"
| "collect_e f (DictComp k v tgt it) =
     f (DictComp k v tgt it) @ collect_e f k @ collect_e f v @ collect_e f tgt @ collect_e f it"
| "collect_e f (Subscript e i) = f (Subscript e i) @ collect_e f e @ collect_e f i"
| "collect_e f (Slice a b) = f (Slice a b) @ collect_e f a @ collect_e f b"
| "collect_e f (IfExp c a b) =
     f (IfExp c a b) @ collect_e f c @ collect_e f a @ collect_e f b"
| "collect_e f (Lambda ps e) = f (Lambda ps e) @ collect_e f e"

text \<open>The expressions that stand in a statement itself, not in the statements nested in it.\<close>

fun stmt_exprs :: "stmt \<Rightarrow> expr list" where
  "stmt_exprs (Import _ _) = []"
| "stmt_exprs (ImportFrom _ _) = []"
| "stmt_exprs (Assign ts v) = ts @ [v]"
| "stmt_exprs (AugAssign t _ v) = [t, v]"
| "stmt_exprs (Expr e) = [e]"
| "stmt_exprs (FunctionDef _ _ ds _) = ds"
| "stmt_exprs (Return e) = [e]"
| "stmt_exprs (If c _ _) = [c]"
| "stmt_exprs (For t it _) = [t, it]"
| "stmt_exprs (While c _) = [c]"
| "stmt_exprs (Try _ _ _) = []"
| "stmt_exprs (Raise e) = [e]"
| "stmt_exprs (Assert e) = [e]"
| "stmt_exprs (With e _) = [e]"

definition block_stmts :: "stmt list \<Rightarrow> stmt list" where
  "block_stmts ss = concat (map sub_stmts ss)"

definition collect :: "(expr \<Rightarrow> 'a list) \<Rightarrow> stmt list \<Rightarrow> 'a list" where
  "collect f ss = concat (map (collect_e f) (concat (map stmt_exprs (block_stmts ss))))"

definition all_stmts :: "cell list \<Rightarrow> stmt list" where
  "all_stmts nb = concat (map (\<lambda>c. block_stmts (cell_stmts c)) nb)"


subsection \<open>Imports, calls and function definitions\<close>

fun import_of :: "stmt \<Rightarrow> (string \<times> string list) list" where
  "import_of (Import m a) = [(m, [a])]"
| "import_of (ImportFrom m ns) = [(m, ns)]"
| "import_of _ = []"

definition package :: "string \<Rightarrow> string" where
  "package m = takeWhile (\<lambda>c. c \<noteq> CHR ''.'') m"

text \<open>The names the notebook binds by importing from HoloViews or Datashader.\<close>

definition library_names :: "cell list \<Rightarrow> string list" where
  "library_names nb =
     concat (map snd (filter (\<lambda>(m, ns). package m = ''holoviews'' \<or> package m = ''datashader'')
                        (concat (map import_of (all_stmts nb)))))"

text \<open>The name at the root of a callee: \<^verbatim>\<open>np\<close> for \<^verbatim>\<open>np.convolve(a, v).cumsum\<close>.\<close>

fun root_name :: "expr \<Rightarrow> string list" where
  "root_name (Name x) = [x]"
| "root_name (Attribute e _) = root_name e"
| "root_name (Call f _) = root_name f"
| "root_name (Subscript e _) = root_name e"
| "root_name _ = []"

fun callee_root :: "expr \<Rightarrow> string list" where
  "callee_root (Call f _) = root_name f"
| "callee_root _ = []"

fun arithmetic_op :: "expr \<Rightarrow> binop list" where
  "arithmetic_op (BinOp _ op _) = [op]"
| "arithmetic_op (USub _) = [Sub]"
| "arithmetic_op _ = []"

text \<open>
  For every function the notebook defines: its name, the roots of the calls in its body,
  and the arithmetic operations its body applies itself.
\<close>

fun function_summary :: "stmt \<Rightarrow> (string \<times> string list \<times> binop list) list" where
  "function_summary (FunctionDef f ps ds body) =
     [(f, unique (collect callee_root body), collect arithmetic_op body)]"
| "function_summary _ = []"

definition defined_functions :: "cell list \<Rightarrow> (string \<times> string list \<times> binop list) list" where
  "defined_functions nb = concat (map function_summary (all_stmts nb))"

definition calls_library :: "cell list \<Rightarrow> string \<times> string list \<times> binop list \<Rightarrow> bool" where
  "calls_library nb fn = list_ex (\<lambda>r. r \<in> set (library_names nb)) (fst (snd fn))"

text \<open>The names the notebook binds itself, other than by import.\<close>

fun own_binding :: "stmt \<Rightarrow> string list" where
  "own_binding (Import _ _) = []"
| "own_binding (ImportFrom _ _) = []"
| "own_binding s = binds_s s"

definition own_names :: "cell list \<Rightarrow> string list" where
  "own_names nb = unique (concat (map own_binding (all_stmts nb)))"

definition operations :: "string list" where
  "operations = [''datashade'', ''rasterize'', ''shade'', ''dynspread'', ''decimate'']"

subsection \<open>Attribute assignments\<close>

text \<open>
  An assignment \<^verbatim>\<open>decimate.max_samples = 1000\<close> stores into an attribute of an object
  that the cell did not create: state shared with every later use of the object. The
  store maps (object name, attribute) to the expression assigned; calls into the
  libraries are not followed.
\<close>

type_synonym attr_store = "string \<times> string \<Rightarrow> expr option"

fun store_target :: "expr \<Rightarrow> expr \<Rightarrow> attr_store \<Rightarrow> attr_store" where
  "store_target v (Attribute (Name ob) a) st = st((ob, a) \<mapsto> v)"
| "store_target v _ st = st"

fun exec_attr :: "stmt \<Rightarrow> attr_store \<Rightarrow> attr_store" where
  "exec_attr (Assign ts v) st = fold (store_target v) ts st"
| "exec_attr _ st = st"

definition run_cell_attrs :: "cell \<Rightarrow> attr_store \<Rightarrow> attr_store" where
  "run_cell_attrs c st = fold exec_attr (cell_stmts c) st"

fun attr_target :: "expr \<Rightarrow> (string \<times> string) list" where
  "attr_target (Attribute e a) = map (\<lambda>r. (r, a)) (root_name e)"
| "attr_target (Subscript e _) = map (\<lambda>r. (r, ''[]'')) (root_name e)"
| "attr_target (TupleE es) = concat (map attr_target es)"
| "attr_target (ListE es) = concat (map attr_target es)"
| "attr_target _ = []"

fun attr_assigns :: "stmt \<Rightarrow> (string \<times> string) list" where
  "attr_assigns (Assign ts _) = concat (map attr_target ts)"
| "attr_assigns (AugAssign t _ _) = attr_target t"
| "attr_assigns (For t _ _) = attr_target t"
| "attr_assigns _ = []"

text \<open>The code cells that assign to an attribute anywhere, also inside a function body.\<close>

definition attr_writers :: "cell list \<Rightarrow> (nat \<times> (string \<times> string) list) list" where
  "attr_writers nb =
     filter (\<lambda>(i, ws). ws \<noteq> [])
       (map (\<lambda>(i, c). (i, concat (map attr_assigns (block_stmts (cell_stmts c))))) (indexed nb))"

text \<open>
  The settings in force at a call. HoloViews operations are parameterized: a parameter
  that a call passes as a keyword argument holds for that call, and any other parameter
  has the value of the class attribute at the time of the call. \<open>call_keywords op\<close>
  finds the calls of the operation \<open>op\<close> with the keyword arguments of each
  (an argument \<^verbatim>\<open>**d\<close> is listed under the name \<^verbatim>\<open>**\<close>); \<open>stores_before\<close> gives
  the attribute store that each cell of a notebook starts from.
\<close>

fun keyword_of :: "expr \<Rightarrow> (string \<times> expr) list" where
  "keyword_of (Keyword k v) = [(k, v)]"
| "keyword_of (DoubleStar e) = [(''**'', e)]"
| "keyword_of _ = []"

fun call_keywords :: "string \<Rightarrow> expr \<Rightarrow> (string \<times> expr) list list" where
  "call_keywords op (Call (Name f) args) =
     (if f = op then [concat (map keyword_of args)] else [])"
| "call_keywords op _ = []"

definition cell_calls :: "string \<Rightarrow> cell \<Rightarrow> (string \<times> expr) list list" where
  "cell_calls op c = collect (call_keywords op) (cell_stmts c)"

fun stores_before :: "cell list \<Rightarrow> attr_store \<Rightarrow> attr_store list" where
  "stores_before [] st = []"
| "stores_before (c # cs) st = st # stores_before cs (run_cell_attrs c st)"

definition setting ::
  "attr_store \<Rightarrow> string \<Rightarrow> string \<Rightarrow> (string \<times> expr) list \<Rightarrow> expr option" where
  "setting st op p kws = (case map_of kws p of Some v \<Rightarrow> Some v | None \<Rightarrow> st (op, p))"

text \<open>
  For every call of \<open>op\<close> in the notebook, in order: the cell of the call and the value
  of the parameter \<open>p\<close> that the call runs with, when the notebook is run top to bottom
  from the store \<open>st\<close>.
\<close>

fun settings_from ::
  "nat \<Rightarrow> (string \<times> expr) list list list \<Rightarrow> attr_store list \<Rightarrow> string \<Rightarrow> string
     \<Rightarrow> (nat \<times> expr option) list" where
  "settings_from i (calls # cs) (before # bs) op p =
     map (\<lambda>kws. (i, setting before op p kws)) calls @ settings_from (Suc i) cs bs op p"
| "settings_from i _ _ op p = []"

definition settings_in_force ::
  "cell list \<Rightarrow> attr_store \<Rightarrow> string \<Rightarrow> string \<Rightarrow> (nat \<times> expr option) list" where
  "settings_in_force nb st op p =
     settings_from 0 (map (cell_calls op) nb) (stores_before nb st) op p"

subsection \<open>Error handling\<close>



subsection \<open>Uses of the random generator\<close>

text \<open>
  The functions of \<^verbatim>\<open>np.random\<close> that the statements of a cell call themselves, in
  the order of the statements. The body of a function definition is not run by the
  definition and is not counted.
\<close>

fun generator_call :: "expr \<Rightarrow> string list" where
  "generator_call (Call (Attribute (Attribute (Name m) sub) a) _) =
     (if m = ''np'' \<and> sub = ''random'' then [a] else [])"
| "generator_call _ = []"

definition cell_generator_calls :: "cell \<Rightarrow> string list" where
  "cell_generator_calls c =
     concat (map (collect_e generator_call) (concat (map stmt_exprs (cell_stmts c))))"

definition generator_cells :: "cell list \<Rightarrow> (nat \<times> string list) list" where
  "generator_cells nb =
     filter (\<lambda>ic. snd ic \<noteq> []) (indexed (map cell_generator_calls nb))"

section \<open>Properties of the helper functions\<close>

subsection \<open>Rounding\<close>

lemma round_half_even_bounds: "\<lfloor>q\<rfloor> \<le> round_half_even q \<and> round_half_even q \<le> \<lfloor>q\<rfloor> + 1"
  by (simp add: round_half_even_def Let_def)



lemma round_half_even_abs: "\<bar>real_of_int (round_half_even q)\<bar> \<le> \<bar>q\<bar> + 1"
  using round_half_even_bounds [of q] by linarith



lemma float_max_ge: "2 \<le> float_max"
proof -
  have a: "(1::real) \<le> 2 ^ 53 - 1" by simp
  have "(2::real) ^ 1 \<le> 2 ^ 971" by (rule power_increasing) simp_all
  then have b: "(2::real) \<le> 2 ^ 971" by (simp only: power_one_right)
  have c: "(0::real) \<le> 2 ^ 971" by (rule zero_le_power) simp
  have "1 * 2 \<le> (2 ^ 53 - 1) * (2::real) ^ 971"
    using a b c by (intro mult_mono) (simp_all only: zero_le_one zero_le_numeral)
  then show ?thesis unfolding float_max_def by (simp only: mult_1)
qed

lemma binary64_finite:
  assumes "\<bar>v\<bar> \<le> 1"
  shows "\<exists>w. binary64 v = Fin w"
proof (cases "v = 0")
  case True
  then show ?thesis by (simp add: binary64_def)
next
  case False
  define e where "e = max \<lfloor>log 2 \<bar>v\<bar>\<rfloor> (- 1022)"
  define u where "u = 2 powr (real_of_int e - 52)"
  define w where "w = real_of_int (round_half_even (v / u)) * u"
  have "log 2 \<bar>v\<bar> \<le> 0" using assms False by simp
  then have "\<lfloor>log 2 \<bar>v\<bar>\<rfloor> \<le> 0" by (simp add: floor_le_zero)
  then have e: "e \<le> 0" by (simp add: e_def)
  have u0: "0 < u" by (simp add: u_def)
  have "u \<le> 2 powr 0" unfolding u_def using e by (intro powr_mono) simp_all
  then have u1: "u \<le> 1" by simp
  have "\<bar>w\<bar> = \<bar>real_of_int (round_half_even (v / u))\<bar> * u"
    using u0 by (simp add: w_def abs_mult)
  also have "\<dots> \<le> (\<bar>v / u\<bar> + 1) * u"
    using round_half_even_abs [of "v / u"] u0 by (intro mult_right_mono) simp_all
  also have "\<dots> = \<bar>v\<bar> + u" using u0 by (simp add: field_simps)
  also have "\<dots> \<le> float_max" using assms u1 float_max_ge by linarith
  finally have "\<not> float_max < \<bar>w\<bar>" by simp
  then show ?thesis using False by (simp add: binary64_def Let_def e_def u_def w_def)
qed











subsection \<open>Lengths and returning steps\<close>

lemma draw_n_length: "length (fst (draw_n d k s)) = k"
  by (induction k arbitrary: s) (simp_all add: case_prod_beta)

lemma length_cumsum_from: "length (cumsum_from acc xs) = length xs"
  by (induction xs arbitrary: acc) auto

lemma length_cumsum: "length (cumsum xs) = length xs"
  by (simp add: cumsum_def length_cumsum_from)

lemma length_convolve_full: "length (convolve_full a v) = length a + length v - 1"
  by (simp add: convolve_full_def)

lemma np_random_normal_eq:
  "0 \<le> n \<Longrightarrow> np_random_normal R loc sc n s =
     Inr (map (\<lambda>z. loc + sc * z) (fst (draw_n (next_gauss R) (nat n) s)),
          snd (draw_n (next_gauss R) (nat n) s))"
  by (simp add: np_random_normal_def split: prod.splits)

lemma np_convolve_eq: "a \<noteq> [] \<Longrightarrow> v \<noteq> [] \<Longrightarrow> np_convolve a v = Inr (convolve_full a v)"
  by (simp add: np_convolve_def)

lemma length_linspace: "0 \<le> N \<Longrightarrow> \<exists>t. np_linspace a b N = Inr t \<and> length t = nat N"
  by (simp add: np_linspace_def Let_def py_range_def)

lemma length_linspace_fl: "0 \<le> N \<Longrightarrow> \<exists>t. np_linspace_fl a b N = Inr t \<and> length t = nat N"
  by (simp add: np_linspace_fl_def Let_def py_range_def)

lemma length_fl_cumsum_from: "length (fl_cumsum_from acc vs) = length vs"
  by (induction vs arbitrary: acc) auto

lemma length_fl_cumsum: "length (fl_cumsum vs) = length vs"
  by (simp add: fl_cumsum_def length_fl_cumsum_from)

text \<open>
  The run of \<^verbatim>\<open>random_walk\<close> for positive sizes, line by line: every array it adds
  has \<open>n + f - 1\<close> entries, so no step raises.
\<close>

lemma random_walk_run:
  assumes n: "1 \<le> n" and f: "1 \<le> f"
  shows "\<exists>xs ys s1. random_walk R n f s = Inr (map2 (\<lambda>x y. [x, y]) xs ys, s1)
           \<and> length xs = nat (n + f - 1) \<and> length ys = nat (n + f - 1)"
proof -
  let ?m = "nat (n + f - 1)"
  have nf: "n - 1 + f = n + f - 1" and n0: "0 \<le> n" and m0: "0 \<le> n + f - 1"
    and m: "nat n + nat f - 1 = ?m" and pos: "0 < nat n" "0 < nat f"
    using n f by auto
  let ?filt = "map (\<lambda>v. v / real_of_int f) (replicate (nat f) 1)"
  have filt: "?filt \<noteq> []" "length ?filt = nat f" using pos by auto
  have ones: "np_ones f = Inr (replicate (nat f) 1)" using f by (simp add: np_ones_def)
  define ax where "ax = map (\<lambda>z. 0 + 0.1 * z) (fst (draw_n (next_gauss R) (nat n) s))"
  define sa where "sa = snd (draw_n (next_gauss R) (nat n) s)"
  have s1: "np_random_normal R 0 0.1 n s = Inr (ax, sa)"
    unfolding ax_def sa_def by (rule np_random_normal_eq [OF n0])
  have lax: "length ax = nat n" by (simp add: ax_def draw_n_length)
  define cx where "cx = convolve_full ax ?filt"
  have s2: "np_convolve ax ?filt = Inr cx"
    unfolding cx_def using lax pos filt(1) by (intro np_convolve_eq) auto
  have lcx: "length (cumsum cx) = ?m"
    unfolding cx_def length_cumsum length_convolve_full lax filt(2) by (rule m)
  define ay where "ay = map (\<lambda>z. 0 + 0.1 * z) (fst (draw_n (next_gauss R) (nat n) sa))"
  define sb where "sb = snd (draw_n (next_gauss R) (nat n) sa)"
  have s3: "np_random_normal R 0 0.1 n sa = Inr (ay, sb)"
    unfolding ay_def sb_def by (rule np_random_normal_eq [OF n0])
  have lay: "length ay = nat n" by (simp add: ay_def draw_n_length)
  define cy where "cy = convolve_full ay ?filt"
  have s4: "np_convolve ay ?filt = Inr cy"
    unfolding cy_def using lay pos filt(1) by (intro np_convolve_eq) auto
  have lcy: "length (cumsum cy) = ?m"
    unfolding cy_def length_cumsum length_convolve_full lay filt(2) by (rule m)
  define w where "w = map (\<lambda>v. 0.1 * sin (0.1 * v)) (py_range (n + f - 1))"
  have lw: "length w = ?m" by (simp add: w_def py_range_def)
  define xs1 where "xs1 = map2 (+) (cumsum cx) w"
  have s5: "np_iadd (cumsum cx) w = Inr xs1"
    using lcx lw by (simp add: np_iadd_def xs1_def)
  have lxs1: "length xs1 = ?m" using lcx lw by (simp add: xs1_def)
  define nx where "nx = map (\<lambda>z. 0 + 0.005 * z) (fst (draw_n (next_gauss R) ?m sb))"
  define sc where "sc = snd (draw_n (next_gauss R) ?m sb)"
  have s6: "np_random_normal R 0 0.005 (n + f - 1) sb = Inr (nx, sc)"
    unfolding nx_def sc_def by (rule np_random_normal_eq [OF m0])
  have lnx: "length nx = ?m" by (simp add: nx_def draw_n_length)
  define xs2 where "xs2 = map2 (+) xs1 nx"
  have s7: "np_iadd xs1 nx = Inr xs2"
    using lxs1 lnx by (simp add: np_iadd_def xs2_def)
  have lxs2: "length xs2 = ?m" using lxs1 lnx by (simp add: xs2_def)
  define ny where "ny = map (\<lambda>z. 0 + 0.005 * z) (fst (draw_n (next_gauss R) ?m sc))"
  define sd where "sd = snd (draw_n (next_gauss R) ?m sc)"
  have s8: "np_random_normal R 0 0.005 (n + f - 1) sc = Inr (ny, sd)"
    unfolding ny_def sd_def by (rule np_random_normal_eq [OF m0])
  have lny: "length ny = ?m" by (simp add: ny_def draw_n_length)
  define ys1 where "ys1 = map2 (+) (cumsum cy) ny"
  have s9: "np_iadd (cumsum cy) ny = Inr ys1"
    using lcy lny by (simp add: np_iadd_def ys1_def)
  have lys1: "length ys1 = ?m" using lcy lny by (simp add: ys1_def)
  have s10: "np_column_stack2 xs2 ys1 = Inr (map2 (\<lambda>x y. [x, y]) xs2 ys1)"
    using lxs2 lys1 by (simp add: np_column_stack2_def)
  have "random_walk R n f s = Inr (map2 (\<lambda>x y. [x, y]) xs2 ys1, sd)"
    unfolding random_walk_def bind_def lift_def Let_def nf ones w_def [symmetric]
      s1 s2 s3 s4 s5 s6 s7 s8 s9 s10 sum.case prod.case
    by (rule refl)
  with lxs2 lys1 show ?thesis by blast
qed

text \<open>The four draws of \<^verbatim>\<open>random_cov\<close> and the product it returns.\<close>

lemma draw_4: "\<exists>a b c d s1. draw_n dr 4 s = ([a, b, c, d], s1)"
  by (simp add: eval_nat_numeral case_prod_beta)

lemma gram_2x2:
  "np_dot [[a, b], [c, d]] (transpose_m [[a, b], [c, d]]) =
     [[a * a + b * b, a * c + b * d], [c * a + d * b, c * c + d * d]]"
  by (simp add: np_dot_def transpose_m_def inner_def eval_nat_numeral upt_rec)

lemma random_cov_eq:
  "\<exists>a b c d s1. draw_n (next_gauss R) 4 s = ([a, b, c, d], s1) \<and> random_cov R s =
      Inr ([[a * a + b * b, a * c + b * d], [c * a + d * b, c * c + d * d]], s1)"
proof -
  obtain a b c d s1 where dr: "draw_n (next_gauss R) 4 s = ([a, b, c, d], s1)"
    using draw_4 by metis
  have "random_cov R s = Inr (np_dot [[a, b], [c, d]] (transpose_m [[a, b], [c, d]]), s1)"
    by (simp add: random_cov_def bind_def ret_def np_random_randn2_def dr)
  with dr show ?thesis unfolding gram_2x2 by blast
qed

text \<open>
  The run of \<^verbatim>\<open>time_series\<close> for a positive \<open>N\<close> and a \<open>sigma\<close> whose square is a
  finite double.
\<close>

lemma py_float_pow_Inr: "py_float_pow a k = Inr v \<longleftrightarrow> binary64 (a ^ k) = Fin v"
  by (cases "binary64 (a ^ k)") (simp_all add: py_float_pow_def)


lemma time_series_run:
  assumes N: "1 \<le> N" and p: "py_float_pow sigma 2 = Inr v"
  shows "\<exists>X. length X = nat N \<and> time_series R T N mu sigma S0 s =
     Inr (map (\<lambda>x. fl_mul (Fin S0) (fl_exp R x)) X, snd (draw_n (next_gauss R) (nat N) s))"
proof -
  have N0: "N \<noteq> 0" "0 \<le> N" "\<not> N < 0" using N by auto
  have dt: "py_float_div T N = Inr (binary64 (T / real_of_int N))"
    using N0 by (simp add: py_float_div_def)
  obtain t where t: "np_linspace_fl 0 T N = Inr t" "length t = nat N"
    using length_linspace_fl [OF N0(2)] by metis
  have w: "np_random_standard_normal R N s =
     Inr (fst (draw_n (next_gauss R) (nat N) s), snd (draw_n (next_gauss R) (nat N) s))"
    using N0 by (simp add: np_random_standard_normal_def case_prod_beta)
  define X where "X =
     map2 (\<lambda>ti wi. fl_add (fl_mul (fl_add (Fin mu) (fl_neg (fl_mul (Fin 0.5) (Fin v)))) ti)
                      (fl_mul (Fin sigma) wi)) t
       (map (\<lambda>w. fl_mul w (fl_sqrt (binary64 (T / real_of_int N))))
          (fl_cumsum (map Fin (fst (draw_n (next_gauss R) (nat N) s)))))"
  have len: "length X = nat N"
    by (simp add: X_def t(2) length_fl_cumsum draw_n_length)
  have "time_series R T N mu sigma S0 s =
     Inr (map (\<lambda>x. fl_mul (Fin S0) (fl_exp R x)) X, snd (draw_n (next_gauss R) (nat N) s))"
    unfolding time_series_def bind_def lift_def Let_def dt t(1) w p sum.case prod.case ret_def
      X_def
    by (rule refl)
  with len show ?thesis by blast
qed

subsection \<open>Failures\<close>





subsection \<open>The claims about the helper functions\<close>

text \<open>
  C8. For every \<open>n \<ge> 1\<close> and \<open>f \<ge> 1\<close>, \<^verbatim>\<open>random_walk(n, f)\<close> returns (it does not
  raise) a two-column array of exactly \<open>n + f - 1\<close> rows: the full convolution of \<open>n\<close>
  draws with a filter of length \<open>f\<close> has \<open>n + f - 1\<close> entries, and the wobble and the
  noise are built with the matching size.
\<close>

theorem random_walk_shape:
  assumes "1 \<le> n" and "1 \<le> f"
  shows "\<exists>rows s1. random_walk R n f s = Inr (rows, s1) \<and> length rows = nat (n + f - 1)
           \<and> list_all (\<lambda>row. length row = 2) rows"
proof -
  from random_walk_run [OF assms, where R = R and s = s] obtain xs ys s1 where
    run: "random_walk R n f s = Inr (map2 (\<lambda>x y. [x, y]) xs ys, s1)"
    and len: "length xs = nat (n + f - 1)" "length ys = nat (n + f - 1)" by blast
  have "list_all (\<lambda>row. length row = 2) (map2 (\<lambda>x y. [x, y]) xs ys)"
    by (auto simp: list_all_iff)
  with run len show ?thesis by simp
qed

theorem random_walk_shape_witness:
  "(1::int) \<le> 2 \<and> (1::int) \<le> 3 \<and>
   (\<exists>rows s1. random_walk counter_rng 2 3 0 = Inr (rows, s1) \<and> length rows = 4
       \<and> list_all (\<lambda>row. length row = 2) rows)"
  using random_walk_shape [of 2 3 counter_rng 0] by simp





section \<open>The datasets are functions of the seeds alone\<close>

text \<open>Sequencing two steps that both return, with what is known of the first result.\<close>

lemma bind_returns:
  assumes "\<forall>s. \<exists>x s1. m s = Inr (x, s1) \<and> P x"
    and "\<And>x. P x \<Longrightarrow> \<forall>s. \<exists>y s1. f x s = Inr (y, s1) \<and> Q y"
  shows "\<forall>s. \<exists>y s1. bind m f s = Inr (y, s1) \<and> Q y"
proof
  fix s
  from assms(1) obtain x s1 where m: "m s = Inr (x, s1)" "P x" by blast
  from assms(2) [OF m(2)] obtain y s2 where "f x s1 = Inr (y, s2)" "Q y" by blast
  with m show "\<exists>y s1. bind m f s = Inr (y, s1) \<and> Q y" by (simp add: bind_def)
qed

lemma ret_returns: "P x \<Longrightarrow> \<forall>s. \<exists>y s1. ret x s = Inr (y, s1) \<and> P y"
  by (simp add: ret_def)

lemma seed_returns: "\<forall>s. \<exists>y s1. np_random_seed R k s = Inr (y, s1) \<and> True"
  by (simp add: np_random_seed_def)

lemma repeat_returns:
  assumes "\<forall>s. \<exists>x s1. m s = Inr (x, s1) \<and> True"
  shows "\<forall>s. \<exists>xs s1. repeat_np k m s = Inr (xs, s1) \<and> True"
proof (induction k)
  case 0
  show ?case by (simp add: ret_def)
next
  case (Suc k)
  show ?case unfolding repeat_np.simps
    by (rule bind_returns [OF assms]) (rule bind_returns [OF Suc], rule ret_returns, simp)
qed

lemma mvn_returns:
  assumes "length cov = length mean" "list_all (\<lambda>row. length row = length mean) cov"
  shows "\<forall>s. \<exists>x s1. np_random_multivariate_normal R mean cov k s = Inr (x, s1) \<and> True"
  using assms by (simp add: np_random_multivariate_normal_def case_prod_beta)

lemma randn1_returns: "\<forall>s. \<exists>x s1. np_random_randn1 R k s = Inr (x, s1) \<and> length x = k"
proof
  fix s
  obtain zs s1 where d: "draw_n (next_gauss R) k s = (zs, s1)"
    by (cases "draw_n (next_gauss R) k s")
  have "length zs = k" using draw_n_length [of "next_gauss R" k s] by (simp add: d)
  then show "\<exists>x s1. np_random_randn1 R k s = Inr (x, s1) \<and> length x = k"
    by (simp add: np_random_randn1_def d)
qed

lemma rand_returns: "\<forall>s. \<exists>x s1. np_random_rand R s = Inr (x, s1) \<and> True"
  by (simp add: np_random_rand_def case_prod_beta)

lemma random_cov_returns:
  "\<forall>s. \<exists>M s1. random_cov R s = Inr (M, s1) \<and> (length M = 2 \<and> list_all (\<lambda>row. length row = 2) M)"
proof
  fix s
  obtain a b c d s1 where "draw_n (next_gauss R) 4 s = ([a, b, c, d], s1)"
    and "random_cov R s =
      Inr ([[a * a + b * b, a * c + b * d], [c * a + d * b, c * c + d * d]], s1)"
    using random_cov_eq [of R s] by (elim exE conjE)
  then show "\<exists>M s1. random_cov R s = Inr (M, s1) \<and> (length M = 2 \<and> list_all (\<lambda>row. length row = 2) M)"
    by simp
qed

lemma time_series_returns:
  assumes "1 \<le> N" and "\<bar>sigma\<bar> \<le> 1"
  shows "\<forall>s. \<exists>S s1. time_series R T N mu sigma S0 s = Inr (S, s1) \<and> True"
proof -
  have "\<bar>sigma ^ 2\<bar> \<le> 1" using assms(2) by (simp add: abs_square_le_1)
  from binary64_finite [OF this] obtain v where "binary64 (sigma ^ 2) = Fin v" by blast
  then have "py_float_pow sigma 2 = Inr v" by (simp only: py_float_pow_Inr)
  from time_series_run [OF assms(1) this, of R T mu S0] show ?thesis by metis
qed

lemma random_walk_returns:
  "1 \<le> n \<Longrightarrow> 1 \<le> f \<Longrightarrow> \<forall>s. \<exists>w s1. random_walk R n f s = Inr (w, s1) \<and> True"
  using random_walk_run [of n f R] by metis

lemma cell_04_returns: "\<forall>s. \<exists>d s1. cell_04_data R s = Inr (d, s1) \<and> True"
  unfolding cell_04_data_def
  by (intro bind_returns [OF seed_returns] bind_returns [OF mvn_returns]
      bind_returns [OF random_walk_returns] ret_returns) simp_all

lemma cell_06_returns: "\<forall>s. \<exists>d s1. cell_06_data R s = Inr (d, s1) \<and> True"
  unfolding cell_06_data_def
  by (intro bind_returns [OF seed_returns] bind_returns [OF mvn_returns]
      bind_returns [OF repeat_returns] bind_returns [OF random_walk_returns] ret_returns)
    simp_all

lemma rand_gauss2d_returns: "\<forall>s. \<exists>d s1. rand_gauss2d R s = Inr (d, s1) \<and> True"
  unfolding rand_gauss2d_def
proof (rule bind_returns [OF randn1_returns], rule bind_returns [OF random_cov_returns])
  fix mean :: "real list" and cov :: "real list list"
  assume "length mean = 2" "length cov = 2 \<and> list_all (\<lambda>row. length row = 2) cov"
  then have "length cov = length mean" "list_all (\<lambda>row. length row = length mean) cov"
    by simp_all
  from mvn_returns [OF this]
  show "\<forall>s. \<exists>y s1. bind (np_random_multivariate_normal R mean cov 100000)
      (\<lambda>sample. ret (scale2 100 sample)) s = Inr (y, s1) \<and> True"
    by (rule bind_returns) (rule ret_returns, simp)
qed

lemma cell_17_returns: "\<forall>s. \<exists>d s1. cell_17_data R s = Inr (d, s1) \<and> True"
  unfolding cell_17_data_def
  by (intro bind_returns [OF seed_returns] bind_returns [OF repeat_returns]
      rand_gauss2d_returns bind_returns [OF rand_returns] time_series_returns ret_returns)
    simp_all

lemma cell_23_returns: "\<forall>s. \<exists>d s1. cell_23_data R s = Inr (d, s1) \<and> True"
  unfolding cell_23_data_def Let_def
  by (intro bind_returns [OF time_series_returns] ret_returns)
    (simp_all add: pd_date_range_years_def)

lemma cell_30_returns: "\<forall>s. \<exists>d s1. cell_30_data R s = Inr (d, s1) \<and> True"
proof -
  have "(0::int) \<le> 10" by simp
  from length_linspace [OF this, of 0 5] obtain t where
    t: "np_linspace 0 5 10 = Inr t" by blast
  show ?thesis
    by (simp add: cell_30_data_def bind_def np_random_seed_def lift_def t Let_def
        case_prod_beta np_random_randn2_def ret_def)
qed

text \<open>
  C7. Every dataset the plotting operations receive is built inside the notebook from
  NumPy's generator, seeded by the notebook, and deterministic transforms; nothing is
  read from outside. The data cells, run top to bottom, return the same datasets (and
  leave the same generator state) from every starting state of the generator: the first
  use of the generator is \<^verbatim>\<open>np.random.seed(1)\<close>. In particular two executions that
  start from the same state construct equal datasets. In the source, every cell whose
  own statements call \<^verbatim>\<open>np.random\<close> (cells 4, 6, 17 and 30) calls
  \<^verbatim>\<open>np.random.seed\<close> first.
\<close>

theorem notebook_datasets_seeded:
  "(\<exists>d sf. \<forall>s. notebook_datasets R s = Inr (d, sf))
   \<and> generator_cells notebook =
       [(4, [''seed'', ''multivariate_normal'']), (6, [''seed'', ''multivariate_normal'']),
        (17, [''seed'', ''rand'']), (30, [''seed'', ''randn''])]"
proof -
  have cells: "generator_cells notebook =
       [(4, [''seed'', ''multivariate_normal'']), (6, [''seed'', ''multivariate_normal'']),
        (17, [''seed'', ''rand'']), (30, [''seed'', ''randn''])]"
    by code_simp
  define rest where "rest =
     bind (np_random_multivariate_normal R [0, 0] [[0.1, 0.1], [0.1, 1.0]] 1000) (\<lambda>points.
     bind (random_walk R 2000 30) (\<lambda>walk.
     ret (points, [walk])))"
  have first: "cell_04_data R s = rest (seed_state R 1)" for s
    by (simp add: cell_04_data_def rest_def bind_def np_random_seed_def)
  define run where "run = (\<lambda>d4.
     bind (cell_06_data R) (\<lambda>d6.
     bind (cell_17_data R) (\<lambda>d17.
     bind (cell_23_data R) (\<lambda>d23.
     bind (cell_30_data R) (\<lambda>d30.
     ret \<lparr>data_04 = d4, data_06 = d6, data_17 = d17, data_23 = d23, data_30 = d30,
          data_34 = cell_34_data (pts_30 d30)\<rparr>)))))"
  have eq: "notebook_datasets R s = bind rest run (seed_state R 1)" for s
    by (simp add: notebook_datasets_def run_def bind_def first)
  have "\<forall>s. \<exists>d s1. bind (cell_04_data R) run s = Inr (d, s1) \<and> True"
    unfolding run_def
    by (intro bind_returns [OF cell_04_returns] bind_returns [OF cell_06_returns]
        bind_returns [OF cell_17_returns] bind_returns [OF cell_23_returns]
        bind_returns [OF cell_30_returns] ret_returns) simp_all
  then obtain d sf where "bind (cell_04_data R) run (seed_state R 1) = Inr (d, sf)" by blast
  then have "bind rest run (seed_state R 1) = Inr (d, sf)"
    by (simp add: bind_def first)
  with eq have "\<exists>d sf. \<forall>s. notebook_datasets R s = Inr (d, sf)" by auto
  with cells show ?thesis by blast
qed

section \<open>What the cells contain\<close>

text \<open>What each of the 37 cells assigns and what it reads from the cells above it.\<close>

lemma names_of_notebook:
  "map names_of notebook =
     [([], []), ([], [''range'', ''float'']), ([], []), ([], []),
      ([''points'', ''paths''], [''np'', ''hv'', ''random_walk'']), ([], []),
      ([''points'', ''paths''], [''np'', ''hv'', ''range'', ''random_walk'']), ([], []),
      ([], [''decimate'', ''points'', ''datashade'', ''paths'']), ([], []),
      ([], [''rasterize'', ''points'', ''shade'', ''datashade'']), ([], []), ([], []),
      ([], [''datashade'', ''points'', ''dynspread'']), ([], []),
      ([], [''datashade'', ''paths'', ''dynspread'']), ([], []),
      ([''kdims'', ''num_ks'', ''gaussians'', ''lines'', ''gaussspread'', ''linespread''],
       [''np'', ''random_cov'', ''range'', ''hv'', ''time_series'', ''dynspread'',
        ''datashade'', ''ds'', ''opts'']),
      ([], []),
      ([''gaussspread'', ''color_key'', ''color_points''],
       [''dynspread'', ''datashade'', ''hv'', ''gaussians'', ''ds'', ''list'', ''enumerate'',
        ''num_ks'', ''str'']),
      ([], []), ([], []), ([], []),
      ([''dates'', ''curve''], [''hv'', ''time_series'', ''len'', ''datashade'']), ([], []),
      ([''smoothed'', ''outliers'', ''ds_curve'', ''spread''],
       [''curve'', ''datashade'', ''dynspread'', ''opts'']),
      ([], []),
      ([''fixed_hover'', ''dynamic_hover''],
       [''datashade'', ''points'', ''hv'', ''rasterize'', ''opts'']),
      ([], []), ([], []),
      ([''N'', ''pts'', ''x'', ''y'', ''xs'', ''ys'', ''z'', ''r'', ''g'', ''b'', ''opts2'',
        ''tri'', ''shadeable'', ''rasterizable''],
       [''hv'', ''opts'', ''np'', ''range'', ''int'', ''dict'', ''datashade'', ''ds'',
        ''dynspread'', ''rasterize'']),
      ([], []), ([''rgb_opts''], [''opts'', ''hv'', ''shadeable'', ''rasterizable'']),
      ([], []), ([''curves'', ''supported''], [''hv'', ''pts'', ''list'', ''datashade'']),
      ([], [''dynspread'', ''datashade'', ''hv'', ''curves'']), ([], [])]"
  by code_simp

text \<open>
  C1, as stated, fails. The claim: the notebook defines no function that computes its
  result by an algorithm of its own; every value is produced by calling HoloViews or
  Datashader. The first code cell defines \<^verbatim>\<open>random_walk\<close>, whose body calls only NumPy
  and \<^verbatim>\<open>range\<close> and applies ten arithmetic operations of its own; it calls no name
  imported from HoloViews or Datashader.
\<close>

theorem random_walk_is_own_computation:
  "(''random_walk'', [''np'', ''range''], [Div, Div, Mult, Mult, Add, Sub, Add, Sub, Add, Sub])
     \<in> set (defined_functions notebook)
   \<and> \<not> calls_library notebook
         (''random_walk'', [''np'', ''range''], [Div, Div, Mult, Mult, Add, Sub, Add, Sub, Add, Sub])"
  by code_simp

text \<open>
  C1, amended. The notebook defines four helper functions, \<^verbatim>\<open>random_walk\<close>,
  \<^verbatim>\<open>random_cov\<close>, \<^verbatim>\<open>time_series\<close> and \<^verbatim>\<open>rand_gauss2d\<close>, that compute
  their results with NumPy calls and arithmetic of their own; none of them calls
  HoloViews or Datashader. The operations \<^verbatim>\<open>datashade\<close>, \<^verbatim>\<open>rasterize\<close>,
  \<^verbatim>\<open>shade\<close>, \<^verbatim>\<open>dynspread\<close> and \<^verbatim>\<open>decimate\<close> are all imported from HoloViews and
  the notebook never defines or rebinds them: rasterization, aggregation and shading are
  called, not implemented.
\<close>

theorem helpers_compute_with_numpy_only:
  "defined_functions notebook =
     [(''random_walk'', [''np'', ''range''], [Div, Div, Mult, Mult, Add, Sub, Add, Sub, Add, Sub]),
      (''random_cov'', [''np''], []),
      (''time_series'', [''float'', ''np''], [Div, Mult, Add, Mult, Sub, Mult, PowOp, Mult, Mult]),
      (''rand_gauss2d'', [''np'', ''random_cov''], [Mult])]
   \<and> filter (calls_library notebook) (defined_functions notebook) = []
   \<and> filter (\<lambda>op. op \<in> set (library_names notebook)) operations = operations
   \<and> filter (\<lambda>op. op \<in> set (own_names notebook)) operations = []"
  by code_simp

text \<open>
  C2, as stated, fails. The claim: every dataset is discarded with the cell that
  constructs it; no later cell reads a name that a cell bound to a dataset. The name
  \<^verbatim>\<open>points\<close> is assigned in cells 4 and 6 and read by cells 8, 10, 13 and 27.
\<close>

theorem points_is_read_by_later_cells:
  "assigners notebook ''points'' = [4, 6] \<and> readers notebook ''points'' = [8, 10, 13, 27]"
  unfolding assigners_def readers_def names_of_notebook by code_simp

text \<open>
  C2, amended. The example datasets are constructed inline by assignment and stay bound
  for the cells below. Nine assigned names are read by a later cell: \<^verbatim>\<open>points\<close> and
  \<^verbatim>\<open>paths\<close> (assigned in cells 4 and 6), \<^verbatim>\<open>num_ks\<close> and \<^verbatim>\<open>gaussians\<close> (cell
  17), \<^verbatim>\<open>curve\<close> (cell 23), \<^verbatim>\<open>pts\<close>, \<^verbatim>\<open>shadeable\<close> and \<^verbatim>\<open>rasterizable\<close>
  (cell 30) and \<^verbatim>\<open>curves\<close> (cell 34). Every other assigned name is read, if at all,
  only by the cell that assigns it.
\<close>

theorem assigned_names_read_later:
  "map (\<lambda>x. (x, assigners notebook x, readers notebook x)) (unique (read_later notebook)) =
     [(''points'', [4, 6], [8, 10, 13, 27]), (''paths'', [4, 6], [8, 15]),
      (''num_ks'', [17], [19]), (''gaussians'', [17], [19]), (''curve'', [23], [25]),
      (''pts'', [30], [34]), (''shadeable'', [30], [32]), (''rasterizable'', [30], [32]),
      (''curves'', [34], [35])]
   \<and> filter (\<lambda>x. x \<notin> set (read_later notebook)) (assigned_names notebook) =
     [''kdims'', ''lines'', ''gaussspread'', ''linespread'', ''color_key'', ''color_points'',
      ''dates'', ''smoothed'', ''outliers'', ''ds_curve'', ''spread'', ''fixed_hover'',
      ''dynamic_hover'', ''N'', ''x'', ''y'', ''xs'', ''ys'', ''z'', ''r'', ''g'', ''b'',
      ''opts2'', ''tri'', ''rgb_opts'', ''supported'']"
  unfolding assigners_def readers_def read_later_def assigned_names_def names_of_notebook
  by code_simp

text \<open>
  C3, as stated, fails. The claim: every code cell, executed in order, produces an inline
  plot. The first code cell (cell 1) ends in the definition of \<^verbatim>\<open>time_series\<close> and
  cell 6 ends in the assignment to \<^verbatim>\<open>paths\<close>, its plotting expression being a
  comment: neither ends in an expression, so neither displays a value.
\<close>

theorem cells_1_and_6_display_nothing:
  "is_code (notebook ! 1) \<and> \<not> ends_in_expression (notebook ! 1)
   \<and> is_code (notebook ! 6) \<and> \<not> ends_in_expression (notebook ! 6)"
  by code_simp

text \<open>
  C3, amended. The notebook is one linear sequence of 37 cells, 16 of them code cells,
  executed top to bottom. Every code cell ends in an expression, whose value is displayed
  inline, except the first code cell (imports, parameter settings and helper definitions)
  and cell 6 (whose plotting expression is commented out).
\<close>

theorem code_cells_that_display:
  "length notebook = 37
   \<and> code_cells notebook = [1, 4, 6, 8, 10, 13, 15, 17, 19, 23, 25, 27, 30, 32, 34, 35]
   \<and> displaying_cells notebook = [4, 8, 10, 13, 15, 17, 19, 23, 25, 27, 30, 32, 34, 35]
   \<and> silent_cells notebook = [1, 6]"
  by code_simp

text \<open>
  C4, as stated, fails. The claim: executing a code cell changes no state beyond the
  names the cell binds, so no later cell depends on an attribute set by an earlier one.
  Run from an empty store, the first code cell leaves \<^verbatim>\<open>decimate.max_samples\<close> set to
  1000, and cell 8 reads \<^verbatim>\<open>decimate\<close>.
\<close>

theorem first_cell_sets_decimate_max_samples:
  "run_cell_attrs (notebook ! 1) Map.empty (''decimate'', ''max_samples'') = Some (Num ''1000'')
   \<and> readers notebook ''decimate'' = [8]"
proof -
  have "run_cell_attrs (notebook ! 1) Map.empty (''decimate'', ''max_samples'')
      = Some (Num ''1000'')"
    by (simp add: notebook_def run_cell_attrs_def cell_01_def)
  moreover have "readers notebook ''decimate'' = [8]"
    unfolding readers_def names_of_notebook by code_simp
  ultimately show ?thesis by simp
qed

text \<open>The calls of \<^verbatim>\<open>decimate\<close> and \<^verbatim>\<open>dynspread\<close> in each of the 37 cells.\<close>

lemma decimate_calls:
  "map (cell_calls ''decimate'') notebook =
     [[], [], [], [], [], [], [], [], [[]], [], [], [], [], [], [], [], [], [], [], [], [], [],
      [], [], [], [], [], [], [], [], [], [], [], [], [], [], []]"
  by code_simp

lemma dynspread_calls:
  "map (cell_calls ''dynspread'') notebook =
     [[], [], [], [], [], [], [], [], [], [], [], [], [], [[]], [], [[]], [], [[], []], [],
      [[]], [], [], [], [], [], [[(''max_px'', Num ''1'')]], [], [], [], [], [[]], [], [], [],
      [], [[]], []]"
  by code_simp

text \<open>
  C4, amended. The first code cell assigns three class-level parameters of imported
  operations, \<^verbatim>\<open>decimate.max_samples = 1000\<close>, \<^verbatim>\<open>dynspread.max_px = 20\<close> and
  \<^verbatim>\<open>dynspread.threshold = 0.5\<close>. No other cell, and no function body, assigns to an
  attribute or an item of an object, so every later cell starts from the store that the
  first cell left. The call of \<^verbatim>\<open>decimate\<close> in cell 8 runs with
  \<^verbatim>\<open>max_samples = 1000\<close>. The eight calls of \<^verbatim>\<open>dynspread\<close> (in cells 13, 15, 17
  twice, 19, 25, 30 and 35) run with \<^verbatim>\<open>threshold = 0.5\<close> and, except for the call in
  cell 25, which passes \<^verbatim>\<open>max_px=1\<close>, with \<^verbatim>\<open>max_px = 20\<close>. State that the libraries
  change inside their own calls is outside this statement.
\<close>

theorem first_cell_settings_in_force:
  "attr_writers notebook =
     [(1, [(''decimate'', ''max_samples''), (''dynspread'', ''max_px''),
           (''dynspread'', ''threshold'')])]
   \<and> stores_before notebook st =
       st # st # replicate 35
         (st((''decimate'', ''max_samples'') \<mapsto> Num ''1000'',
             (''dynspread'', ''max_px'') \<mapsto> Num ''20'',
             (''dynspread'', ''threshold'') \<mapsto> Num ''0.5''))
   \<and> settings_in_force notebook st ''decimate'' ''max_samples'' = [(8, Some (Num ''1000''))]
   \<and> settings_in_force notebook st ''dynspread'' ''max_px'' =
       [(13, Some (Num ''20'')), (15, Some (Num ''20'')), (17, Some (Num ''20'')),
        (17, Some (Num ''20'')), (19, Some (Num ''20'')), (25, Some (Num ''1'')),
        (30, Some (Num ''20'')), (35, Some (Num ''20''))]
   \<and> settings_in_force notebook st ''dynspread'' ''threshold'' =
       [(13, Some (Num ''0.5'')), (15, Some (Num ''0.5'')), (17, Some (Num ''0.5'')),
        (17, Some (Num ''0.5'')), (19, Some (Num ''0.5'')), (25, Some (Num ''0.5'')),
        (30, Some (Num ''0.5'')), (35, Some (Num ''0.5''))]"
proof -
  have a: "attr_writers notebook =
     [(1, [(''decimate'', ''max_samples''), (''dynspread'', ''max_px''),
           (''dynspread'', ''threshold'')])]"
    by code_simp
  have b: "stores_before notebook st =
       st # st # replicate 35
         (st((''decimate'', ''max_samples'') \<mapsto> Num ''1000'',
             (''dynspread'', ''max_px'') \<mapsto> Num ''20'',
             (''dynspread'', ''threshold'') \<mapsto> Num ''0.5''))"
    by (simp add: notebook_def run_cell_attrs_def cell_01_def cell_04_def cell_06_def
        cell_08_def cell_10_def cell_13_def cell_15_def cell_17_def cell_19_def cell_23_def
        cell_25_def cell_27_def cell_30_def cell_32_def cell_34_def cell_35_def
        eval_nat_numeral)
  have c: "settings_in_force notebook st ''decimate'' ''max_samples'' =
       [(8, Some (Num ''1000''))]"
    unfolding settings_in_force_def decimate_calls b
    by (simp add: setting_def eval_nat_numeral)
  have d: "settings_in_force notebook st ''dynspread'' ''max_px'' =
       [(13, Some (Num ''20'')), (15, Some (Num ''20'')), (17, Some (Num ''20'')),
        (17, Some (Num ''20'')), (19, Some (Num ''20'')), (25, Some (Num ''1'')),
        (30, Some (Num ''20'')), (35, Some (Num ''20''))]"
    unfolding settings_in_force_def dynspread_calls b
    by (simp add: setting_def eval_nat_numeral)
  have e: "settings_in_force notebook st ''dynspread'' ''threshold'' =
       [(13, Some (Num ''0.5'')), (15, Some (Num ''0.5'')), (17, Some (Num ''0.5'')),
        (17, Some (Num ''0.5'')), (19, Some (Num ''0.5'')), (25, Some (Num ''0.5'')),
        (30, Some (Num ''0.5'')), (35, Some (Num ''0.5''))]"
    unfolding settings_in_force_def dynspread_calls b
    by (simp add: setting_def eval_nat_numeral)
  from a b c d e show ?thesis by (intro conjI)
qed


end
